theory Spec2Isabelle
  imports Main "HOL-Library.Word"
begin

section \<open>The minotaur server core: data model\<close>

text \<open>
  The repository carries two variants of the server core. The later one
  (connection-bound shunts, unique asyncs, message statistics, a compare-and-swap
  on \<open>closed\<close>) is the one most definitions below are taken from; the earlier one
  (\<open>server/server.go\<close>, with \<open>shuntMatcher\<close> and the \<open>Error\<close> message kind) is
  embedded with the suffix \<open>_sm\<close> where both variants define a function of the
  same name. Go's embedded structs (\<open>*runtime\<close>, \<open>*event\<close>) are flattened into the
  server record.
\<close>

subsection \<open>Panics and results\<close>

text \<open>
  A Go panic is a value: the runtime's index error, a nil dereference, or the
  value handed to \<open>panic\<close>. A call that may panic returns \<open>panic + 'a\<close>.
\<close>

datatype panic =
    IndexOutOfRange int nat
  | NilDereference
  | PanicValue string

datatype Network =
    NetworkNone | NetworkTcp | NetworkTcp4 | NetworkTcp6
  | NetworkUdp | NetworkUdp4 | NetworkUdp6 | NetworkUnix
  | NetworkHttp | NetworkWebsocket | NetworkKcp | NetworkGRPC

text \<open>
  The part of the server that the options and the statistics accessors touch:
  the network kind, the websocket compression level, and the statistics ring
  (\<open>messageStatisticsLock\<close> is a pointer in the source; the field records whether
  it is non-nil; each bucket is an atomic 64-bit counter, read by \<open>Load\<close>).
\<close>

record runtime =
  network :: Network
  websocketCompression :: int
  messageStatistics :: "int list"
  messageStatisticsLimit :: int
  messageStatisticsLock :: bool

subsection \<open>options.go: WithWebsocketCompression\<close>

definition WithWebsocketCompression :: "int \<Rightarrow> 'a runtime_scheme \<Rightarrow> panic + 'a runtime_scheme" where
  "WithWebsocketCompression level srv =
     (if network srv \<noteq> NetworkWebsocket then Inr srv
      else if \<not> (-2 \<le> level \<and> level \<le> 9)
        then Inl (PanicValue ''websocket: invalid compression level'')
      else Inr (srv\<lparr>websocketCompression := level\<rparr>))"

subsection \<open>Message statistics\<close>

definition HasMessageStatistics :: "'a runtime_scheme \<Rightarrow> bool" where
  "HasMessageStatistics srv = messageStatisticsLock srv"



text \<open>
  \<open>startMessageStatistics\<close> appends the first bucket; each tick of its goroutine
  (\<open>rotateMessageStatistics\<close> is the body of the \<open>ticker.C\<close> case) prepends a fresh
  bucket and trims the ring to the limit; the slice expression \<open>stats[:limit]\<close>
  panics for a negative limit.
\<close>

definition startMessageStatistics :: "'a runtime_scheme \<Rightarrow> 'a runtime_scheme" where
  "startMessageStatistics srv =
     (if \<not> HasMessageStatistics srv then srv
      else srv\<lparr>messageStatistics := messageStatistics srv @ [0]\<rparr>)"

definition rotateMessageStatistics :: "'a runtime_scheme \<Rightarrow> panic + 'a runtime_scheme" where
  "rotateMessageStatistics r =
     (let stats = 0 # messageStatistics r
      in if int (length stats) > messageStatisticsLimit r
         then (if messageStatisticsLimit r < 0
               then Inl (IndexOutOfRange (messageStatisticsLimit r) (length stats))
               else Inr (r\<lparr>messageStatistics := take (nat (messageStatisticsLimit r)) stats\<rparr>))
         else Inr (r\<lparr>messageStatistics := stats\<rparr>))"

subsection \<open>Messages\<close>

text \<open>
  A Go \<open>error\<close> value is identified by its message; \<open>nil\<close> is \<open>None\<close>. A handler
  stored in a message is a Go closure; it is modelled by what one call of it does:
  it returns (a value) or it panics. A nil function pointer is \<open>None\<close>.
\<close>

type_synonym error = string

datatype 'a run = Returns 'a | Panics panic

text \<open>
  The message kinds named by the two variants of \<open>pushMessage\<close> and
  \<open>dispatchMessage\<close> (the declaration of the enumeration is not part of the
  sources at hand). \<open>MessageTypeError\<close> and the error actions occur in
  \<open>server/server.go\<close> only; \<open>MessageErrorActionOther\<close> stands for any action value
  that is neither of the two named ones.
\<close>

datatype MessageType =
    MessageTypePacket
  | MessageTypeError
  | MessageTypeTicker
  | MessageTypeShuntTicker
  | MessageTypeAsync
  | MessageTypeAsyncCallback
  | MessageTypeShuntAsync
  | MessageTypeShuntAsyncCallback
  | MessageTypeUniqueAsync
  | MessageTypeUniqueAsyncCallback
  | MessageTypeUniqueShuntAsync
  | MessageTypeUniqueShuntAsyncCallback
  | MessageTypeSystem
  | MessageTypeShunt

datatype MessageErrorAction =
    MessageErrorActionNone
  | MessageErrorActionShutdown
  | MessageErrorActionOther nat

text \<open>
  \<open>conn\<close> is a \<open>*Conn\<close>: nil, or a connection, of which routing reads the ID only.
\<close>

record Message =
  t :: MessageType
  conn :: "string option"
  ordinaryHandler :: "unit run option"
  exceptionHandler :: "error option run option"
  errHandler :: "(error option \<Rightarrow> unit run) option"
  packet :: "8 word list"
  err :: "error option"
  name :: string
  errAction :: MessageErrorAction

text \<open>The zeroed record handed out by \<open>messagePool.Get()\<close>.\<close>

definition emptyMessage :: Message where
  "emptyMessage =
     \<lparr>t = MessageTypePacket, conn = None, ordinaryHandler = None, exceptionHandler = None,
      errHandler = None, packet = [], err = None, name = [],
      errAction = MessageErrorActionNone\<rparr>"

text \<open>
  Modelled from the spec: the \<open>castTo...\<close> constructors of \<open>message.go\<close> (not among
  the sources); each sets the kind and the fields its arguments name (section 3 of
  the specification, and the call sites in \<open>server.go\<close>). Log marks are left out.
\<close>

definition castToSystemMessage :: "unit run option \<Rightarrow> Message \<Rightarrow> Message" where
  "castToSystemMessage handler m = m\<lparr>t := MessageTypeSystem, ordinaryHandler := handler\<rparr>"

definition castToShuntMessage :: "string option \<Rightarrow> unit run option \<Rightarrow> Message \<Rightarrow> Message" where
  "castToShuntMessage c caller m =
     m\<lparr>t := MessageTypeShunt, conn := c, ordinaryHandler := caller\<rparr>"

definition castToPacketMessage :: "string option \<Rightarrow> 8 word list \<Rightarrow> Message \<Rightarrow> Message" where
  "castToPacketMessage c p m = m\<lparr>t := MessageTypePacket, conn := c, packet := p\<rparr>"

definition castToTickerMessage :: "string \<Rightarrow> unit run option \<Rightarrow> Message \<Rightarrow> Message" where
  "castToTickerMessage n caller m =
     m\<lparr>t := MessageTypeTicker, name := n, ordinaryHandler := caller\<rparr>"

definition castToShuntTickerMessage ::
  "string option \<Rightarrow> string \<Rightarrow> unit run option \<Rightarrow> Message \<Rightarrow> Message" where
  "castToShuntTickerMessage c n caller m =
     m\<lparr>t := MessageTypeShuntTicker, conn := c, name := n, ordinaryHandler := caller\<rparr>"

definition castToAsyncMessage ::
  "error option run option \<Rightarrow> (error option \<Rightarrow> unit run) option \<Rightarrow> Message \<Rightarrow> Message" where
  "castToAsyncMessage caller callback m =
     m\<lparr>t := MessageTypeAsync, exceptionHandler := caller, errHandler := callback\<rparr>"

definition castToAsyncCallbackMessage ::
  "error option \<Rightarrow> (error option \<Rightarrow> unit run) option \<Rightarrow> Message \<Rightarrow> Message" where
  "castToAsyncCallbackMessage e callback m =
     m\<lparr>t := MessageTypeAsyncCallback, err := e, errHandler := callback\<rparr>"

definition castToShuntAsyncMessage ::
  "string option \<Rightarrow> error option run option \<Rightarrow> (error option \<Rightarrow> unit run) option
     \<Rightarrow> Message \<Rightarrow> Message" where
  "castToShuntAsyncMessage c caller callback m =
     m\<lparr>t := MessageTypeShuntAsync, conn := c, exceptionHandler := caller,
       errHandler := callback\<rparr>"

definition castToShuntAsyncCallbackMessage ::
  "string option \<Rightarrow> error option \<Rightarrow> (error option \<Rightarrow> unit run) option \<Rightarrow> Message \<Rightarrow> Message" where
  "castToShuntAsyncCallbackMessage c e callback m =
     m\<lparr>t := MessageTypeShuntAsyncCallback, conn := c, err := e, errHandler := callback\<rparr>"

definition castToUniqueAsyncMessage ::
  "string \<Rightarrow> error option run option \<Rightarrow> (error option \<Rightarrow> unit run) option
     \<Rightarrow> Message \<Rightarrow> Message" where
  "castToUniqueAsyncMessage k caller callback m =
     m\<lparr>t := MessageTypeUniqueAsync, name := k, exceptionHandler := caller,
       errHandler := callback\<rparr>"

definition castToUniqueAsyncCallbackMessage ::
  "string \<Rightarrow> error option \<Rightarrow> (error option \<Rightarrow> unit run) option \<Rightarrow> Message \<Rightarrow> Message" where
  "castToUniqueAsyncCallbackMessage k e callback m =
     m\<lparr>t := MessageTypeUniqueAsyncCallback, name := k, err := e, errHandler := callback\<rparr>"

definition castToUniqueShuntAsyncMessage ::
  "string option \<Rightarrow> string \<Rightarrow> error option run option \<Rightarrow> (error option \<Rightarrow> unit run) option
     \<Rightarrow> Message \<Rightarrow> Message" where
  "castToUniqueShuntAsyncMessage c k caller callback m =
     m\<lparr>t := MessageTypeUniqueShuntAsync, conn := c, name := k, exceptionHandler := caller,
       errHandler := callback\<rparr>"

definition castToUniqueShuntAsyncCallbackMessage ::
  "string option \<Rightarrow> string \<Rightarrow> error option \<Rightarrow> (error option \<Rightarrow> unit run) option
     \<Rightarrow> Message \<Rightarrow> Message" where
  "castToUniqueShuntAsyncCallbackMessage c k e callback m =
     m\<lparr>t := MessageTypeUniqueShuntAsyncCallback, conn := c, name := k, err := e,
       errHandler := callback\<rparr>"

definition castToErrorMessage :: "error option \<Rightarrow> MessageErrorAction \<Rightarrow> Message \<Rightarrow> Message" where
  "castToErrorMessage e action m = m\<lparr>t := MessageTypeError, err := e, errAction := action\<rparr>"

subsection \<open>Dispatchers\<close>

text \<open>
  Modelled from the spec: \<open>dispatcher.go\<close> is not among the sources. Section 3 and
  section 4.B of the specification give a dispatcher a name, a FIFO of messages, a
  close state and a set of in-flight unique keys, and the operations below:
  \<open>put\<close> enqueues unless the dispatcher is closed; \<open>unique\<close> tests and sets a key
  and answers whether it was present; \<open>antiUnique\<close> removes it; \<open>close\<close> refuses
  further puts; \<open>transfer\<close> drains the queued items into another dispatcher,
  keeping their order.
\<close>

record dispatcher =
  dname :: string
  queue :: "Message list"
  uniques :: "string set"
  closing :: bool

definition put :: "Message \<Rightarrow> dispatcher \<Rightarrow> dispatcher" where
  "put m d = (if closing d then d else d\<lparr>queue := queue d @ [m]\<rparr>)"

definition unique :: "string \<Rightarrow> dispatcher \<Rightarrow> bool \<times> dispatcher" where
  "unique k d = (k \<in> uniques d, d\<lparr>uniques := insert k (uniques d)\<rparr>)"

definition antiUnique :: "string \<Rightarrow> dispatcher \<Rightarrow> dispatcher" where
  "antiUnique k d = d\<lparr>uniques := uniques d - {k}\<rparr>"

definition close :: "dispatcher \<Rightarrow> dispatcher" where
  "close d = d\<lparr>closing := True\<rparr>"

text \<open>
  Dispatchers are shared objects: the registry, the per-connection table and the
  server's \<open>systemDispatcher\<close> field all hold \<open>*dispatcher\<close> pointers. A pointer is
  an address into a store of dispatchers.
\<close>

type_synonym addr = nat

definition transfer :: "addr \<Rightarrow> addr \<Rightarrow> (addr \<Rightarrow> dispatcher) \<Rightarrow> (addr \<Rightarrow> dispatcher)" where
  "transfer self other h =
     (let q = queue (h self);
          h1 = h(self := (h self)\<lparr>queue := []\<rparr>)
      in h1(other := (h1 other)\<lparr>queue := queue (h1 other) @ q\<rparr>))"

subsection \<open>The server\<close>

text \<open>
  What the server does to the outside is kept as a trace: the event hooks it fires,
  the records it returns to the message pool, the handlers it invokes, its calls
  of \<open>antiUnique\<close>, and the steps of \<open>shutdown\<close> (logs, sleeps, releases, channel
  sends; durations in nanoseconds). The timing diagnostics of \<open>dispatchMessage\<close> (the deadlock
  watchdog and \<open>low\<close>) only log and are left out.
\<close>

datatype event =
    ShuntChannelCreated string
  | ShuntChannelClosed string
  | MessageError Message panic
  | PoolRelease Message
  | HandlerRan Message
  | AntiUnique addr string
  | LogShutdownError error
  | LogWaiting
  | Sleep nat
  | StopEvent
  | ContextCancel
  | GnetStop
  | TickerPoolRelease
  | TickerRelease
  | AntsRelease
  | GrpcGracefulStop
  | HttpShutdown nat
  | RegExitEvent error
  | LogShutdownNormal
  | RuntimeErrorChanSend "error option"
  | CloseChannelSignal
  | LogPanic "error option"
  | LogRecovered panic

text \<open>
  The registry holds three Go maps: \<open>dispatchers\<close> (name to dispatcher),
  \<open>dispatcherMember\<close> (name to the IDs of the member connections) and
  \<open>currDispatcher\<close> (connection ID to dispatcher). Reading a missing key of
  \<open>dispatcherMember\<close> gives the nil map, which has no members. Pointer fields
  that are only tested against nil (\<open>ants\<close>, \<open>multiple\<close>, \<open>gServer\<close>, ...) are
  booleans: the pointer is set. The registered event handlers are the functions
  \<open>On...Event\<close>; a handler that can veto or rewrite answers with its verdict.
\<close>

record Server = runtime +
  addr :: string
  closed :: "32 word"
  messageCounter :: int
  ants :: bool
  heap :: "addr \<Rightarrow> dispatcher"
  nextAddr :: addr
  systemDispatcher :: "addr option"
  dispatchers :: "string \<rightharpoonup> addr"
  dispatcherMember :: "string \<rightharpoonup> string set"
  currDispatcher :: "string \<rightharpoonup> addr"
  multiple :: bool
  multipleRuntimeErrorChan :: bool
  gServer :: bool
  tickerPool :: bool
  ticker :: bool
  grpcServer :: bool
  httpServer :: bool
  OnMessageExecBeforeEvent :: "Message \<Rightarrow> bool"
  OnConnectionPacketPreprocessEvent ::
    "string option \<Rightarrow> 8 word list \<Rightarrow> (bool \<times> 8 word list) run"
  OnConnectionReceivePacketEvent :: "string option \<Rightarrow> 8 word list \<Rightarrow> unit run"
  trace :: "event list"

definition serverSystemDispatcher :: string where
  "serverSystemDispatcher = ''system''"

definition emit :: "event \<Rightarrow> Server \<Rightarrow> Server" where
  "emit e srv = srv\<lparr>trace := trace srv @ [e]\<rparr>"

definition messagePoolRelease :: "Message \<Rightarrow> Server \<Rightarrow> Server" where
  "messagePoolRelease m srv = emit (PoolRelease m) srv"

text \<open>The dispatcher operations, applied through a pointer.\<close>

definition dispatcherPut :: "addr \<Rightarrow> Message \<Rightarrow> Server \<Rightarrow> Server" where
  "dispatcherPut d m srv = srv\<lparr>heap := (heap srv)(d := put m (heap srv d))\<rparr>"

definition dispatcherUnique :: "addr \<Rightarrow> string \<Rightarrow> Server \<Rightarrow> bool \<times> Server" where
  "dispatcherUnique d k srv =
     (fst (unique k (heap srv d)), srv\<lparr>heap := (heap srv)(d := snd (unique k (heap srv d)))\<rparr>)"

definition dispatcherAntiUnique :: "addr \<Rightarrow> string \<Rightarrow> Server \<Rightarrow> Server" where
  "dispatcherAntiUnique d k srv =
     emit (AntiUnique d k) (srv\<lparr>heap := (heap srv)(d := antiUnique k (heap srv d))\<rparr>)"

definition dispatcherClose :: "addr \<Rightarrow> Server \<Rightarrow> Server" where
  "dispatcherClose d srv = srv\<lparr>heap := (heap srv)(d := close (heap srv d))\<rparr>"

text \<open>
  Modelled from the spec: \<open>generateDispatcher\<close> (in \<open>dispatcher.go\<close>) builds a fresh,
  open, empty dispatcher of the given name; here it is allocated at the next free
  address.
\<close>

definition generateDispatcher :: "string \<Rightarrow> Server \<Rightarrow> addr \<times> Server" where
  "generateDispatcher n srv =
     (nextAddr srv,
      srv\<lparr>heap := (heap srv)(nextAddr srv :=
              \<lparr>dname = n, queue = [], uniques = {}, closing = False\<rparr>),
          nextAddr := Suc (nextAddr srv)\<rparr>)"

definition members :: "Server \<Rightarrow> string \<Rightarrow> string set" where
  "members srv n = (case dispatcherMember srv n of None \<Rightarrow> {} | Some ms \<Rightarrow> ms)"

text \<open>\<open>delete(srv.dispatcherMember[n], cid)\<close>: no effect on the nil map.\<close>

definition deleteMember :: "string \<Rightarrow> string \<Rightarrow> Server \<Rightarrow> Server" where
  "deleteMember n cid srv =
     (case dispatcherMember srv n of
        None \<Rightarrow> srv
      | Some ms \<Rightarrow> srv\<lparr>dispatcherMember := (dispatcherMember srv)(n \<mapsto> ms - {cid})\<rparr>)"

subsection \<open>Shunts: UseShunt, getConnDispatcher, releaseDispatcher\<close>

text \<open>
  \<open>UseShunt\<close> takes a connection (not nil: it calls \<open>conn.GetID()\<close>), given here by
  its ID. \<open>go d.start()\<close> starts the worker of the new dispatcher; workers are the
  steps \<open>work\<close> below.
\<close>

definition UseShunt :: "string \<Rightarrow> string \<Rightarrow> Server \<Rightarrow> Server" where
  "UseShunt cid n srv =
     (let (d, srv1) =
            (case dispatchers srv n of
               Some d \<Rightarrow> (d, srv)
             | None \<Rightarrow>
                 (let (d, s) = generateDispatcher n srv;
                      s1 = emit (ShuntChannelCreated (dname (heap s d))) s
                  in (d, s1\<lparr>dispatchers := (dispatchers s1)(n \<mapsto> d)\<rparr>)));
          join = (\<lambda>s. s\<lparr>currDispatcher := (currDispatcher s)(cid \<mapsto> d),
                         dispatcherMember := (dispatcherMember s)(n \<mapsto> insert cid (members s n))\<rparr>)
      in case currDispatcher srv1 cid of
           None \<Rightarrow> join srv1
         | Some cur \<Rightarrow>
             if dname (heap srv1 cur) = n then srv1
             else
               (let cn = dname (heap srv1 cur);
                    srv2 = deleteMember cn cid srv1
                in if cn \<noteq> serverSystemDispatcher \<and> members srv2 cn = {}
                   then
                     (let srv3 = srv2\<lparr>dispatchers := (dispatchers srv2)(cn := None)\<rparr>;
                          srv4 = srv3\<lparr>heap := transfer cur d (heap srv3)\<rparr>;
                          srv5 = emit (ShuntChannelClosed (dname (heap srv4 d))) srv4
                      in join (dispatcherClose cur srv5))
                   else join srv2))"

definition HasShunt :: "Server \<Rightarrow> string \<Rightarrow> bool" where
  "HasShunt srv n = (dispatchers srv n \<noteq> None)"

definition GetConnCurrShunt :: "Server \<Rightarrow> string \<Rightarrow> string" where
  "GetConnCurrShunt srv cid =
     (case currDispatcher srv cid of
        Some d \<Rightarrow> dname (heap srv d)
      | None \<Rightarrow> serverSystemDispatcher)"

definition getConnDispatcher :: "Server \<Rightarrow> string option \<Rightarrow> addr option" where
  "getConnDispatcher srv c =
     (case c of
        None \<Rightarrow> systemDispatcher srv
      | Some cid \<Rightarrow>
          (case currDispatcher srv cid of
             Some d \<Rightarrow> Some d
           | None \<Rightarrow> systemDispatcher srv))"

definition releaseDispatcher :: "string option \<Rightarrow> Server \<Rightarrow> Server" where
  "releaseDispatcher c srv =
     (case c of
        None \<Rightarrow> srv
      | Some cid \<Rightarrow>
          (case currDispatcher srv cid of
             None \<Rightarrow> srv
           | Some d \<Rightarrow>
               if dname (heap srv d) \<noteq> serverSystemDispatcher then
                 (let dn = dname (heap srv d);
                      srv1 = deleteMember dn cid srv;
                      srv2 = (if members srv1 dn = {}
                              then (let s = dispatcherClose d (emit (ShuntChannelClosed dn) srv1)
                                    in s\<lparr>dispatchers := (dispatchers s)(dn := None)\<rparr>)
                              else srv1)
                  in srv2\<lparr>currDispatcher := (currDispatcher srv2)(cid := None)\<rparr>)
               else srv))"

subsection \<open>pushMessage\<close>

text \<open>
  \<open>hitMessageStatistics\<close> counts the message and, with statistics on, bumps the
  head bucket \<open>messageStatistics[0]\<close>; on an empty ring that index panics, after
  the counter was incremented. A function that may panic in the middle of its
  updates answers with the panic (or \<open>None\<close>) and the state it left behind.
\<close>

definition hitMessageStatistics :: "Server \<Rightarrow> panic option \<times> Server" where
  "hitMessageStatistics srv =
     (let srv1 = srv\<lparr>messageCounter := messageCounter srv + 1\<rparr>
      in if \<not> HasMessageStatistics srv1 then (None, srv1)
         else (case messageStatistics srv1 of
                 [] \<Rightarrow> (Some (IndexOutOfRange 0 0), srv1)
               | c # cs \<Rightarrow> (None, srv1\<lparr>messageStatistics := (c + 1) # cs\<rparr>)))"

text \<open>The \<open>switch message.t\<close> of \<open>pushMessage\<close>: the dispatcher, or nil.\<close>

definition targetDispatcher :: "Server \<Rightarrow> Message \<Rightarrow> addr option" where
  "targetDispatcher srv message =
     (case t message of
        MessageTypePacket \<Rightarrow> getConnDispatcher srv (conn message)
      | MessageTypeShuntTicker \<Rightarrow> getConnDispatcher srv (conn message)
      | MessageTypeShuntAsync \<Rightarrow> getConnDispatcher srv (conn message)
      | MessageTypeShuntAsyncCallback \<Rightarrow> getConnDispatcher srv (conn message)
      | MessageTypeUniqueShuntAsync \<Rightarrow> getConnDispatcher srv (conn message)
      | MessageTypeUniqueShuntAsyncCallback \<Rightarrow> getConnDispatcher srv (conn message)
      | MessageTypeShunt \<Rightarrow> getConnDispatcher srv (conn message)
      | MessageTypeSystem \<Rightarrow> systemDispatcher srv
      | MessageTypeAsync \<Rightarrow> systemDispatcher srv
      | MessageTypeUniqueAsync \<Rightarrow> systemDispatcher srv
      | MessageTypeAsyncCallback \<Rightarrow> systemDispatcher srv
      | MessageTypeUniqueAsyncCallback \<Rightarrow> systemDispatcher srv
      | MessageTypeTicker \<Rightarrow> systemDispatcher srv
      | MessageTypeError \<Rightarrow> None)"

definition pushMessage :: "Message \<Rightarrow> Server \<Rightarrow> panic option \<times> Server" where
  "pushMessage message srv =
     (if \<not> OnMessageExecBeforeEvent srv message then (None, messagePoolRelease message srv)
      else
        (case targetDispatcher srv message of
           None \<Rightarrow> (None, srv)
         | Some d \<Rightarrow>
             (let (dup, srv1) =
                    (if t message = MessageTypeUniqueShuntAsync \<or> t message = MessageTypeUniqueAsync
                     then dispatcherUnique d (name message) srv
                     else (False, srv))
              in if dup then (None, messagePoolRelease message srv1)
                 else
                   (case hitMessageStatistics srv1 of
                      (Some p, srv2) \<Rightarrow> (Some p, srv2)
                    | (None, srv2) \<Rightarrow> (None, dispatcherPut d message srv2)))))"

text \<open>The \<open>Push...CallbackMessage\<close> entry points used by \<open>dispatchMessage\<close>.\<close>

definition PushAsyncCallbackMessage ::
  "error option \<Rightarrow> (error option \<Rightarrow> unit run) option \<Rightarrow> Server \<Rightarrow> panic option \<times> Server" where
  "PushAsyncCallbackMessage e callback srv =
     pushMessage (castToAsyncCallbackMessage e callback emptyMessage) srv"

definition PushShuntAsyncCallbackMessage ::
  "string option \<Rightarrow> error option \<Rightarrow> (error option \<Rightarrow> unit run) option \<Rightarrow> Server
     \<Rightarrow> panic option \<times> Server" where
  "PushShuntAsyncCallbackMessage c e callback srv =
     pushMessage (castToShuntAsyncCallbackMessage c e callback emptyMessage) srv"

definition PushUniqueAsyncCallbackMessage ::
  "string \<Rightarrow> error option \<Rightarrow> (error option \<Rightarrow> unit run) option \<Rightarrow> Server
     \<Rightarrow> panic option \<times> Server" where
  "PushUniqueAsyncCallbackMessage k e callback srv =
     pushMessage (castToUniqueAsyncCallbackMessage k e callback emptyMessage) srv"

definition PushUniqueShuntAsyncCallbackMessage ::
  "string option \<Rightarrow> string \<Rightarrow> error option \<Rightarrow> (error option \<Rightarrow> unit run) option \<Rightarrow> Server
     \<Rightarrow> panic option \<times> Server" where
  "PushUniqueShuntAsyncCallbackMessage c k e callback srv =
     pushMessage (castToUniqueShuntAsyncCallbackMessage c k e callback emptyMessage) srv"

definition PushUniqueAsyncMessage ::
  "string \<Rightarrow> error option run option \<Rightarrow> (error option \<Rightarrow> unit run) option \<Rightarrow> Server
     \<Rightarrow> panic option \<times> Server" where
  "PushUniqueAsyncMessage k caller callback srv =
     pushMessage (castToUniqueAsyncMessage k caller callback emptyMessage) srv"

definition PushUniqueShuntAsyncMessage ::
  "string option \<Rightarrow> string \<Rightarrow> error option run option \<Rightarrow> (error option \<Rightarrow> unit run) option
     \<Rightarrow> Server \<Rightarrow> panic option \<times> Server" where
  "PushUniqueShuntAsyncMessage c k caller callback srv =
     pushMessage (castToUniqueShuntAsyncMessage c k caller callback emptyMessage) srv"

subsection \<open>dispatchMessage\<close>

definition isAsync :: "MessageType \<Rightarrow> bool" where
  "isAsync k = (k = MessageTypeAsync \<or> k = MessageTypeUniqueAsync
                \<or> k = MessageTypeShuntAsync \<or> k = MessageTypeUniqueShuntAsync)"

text \<open>Calling a stored function: a nil function pointer panics.\<close>

definition callOrdinary :: "Message \<Rightarrow> Server \<Rightarrow> unit run \<times> Server" where
  "callOrdinary msg srv =
     (case ordinaryHandler msg of
        None \<Rightarrow> (Panics NilDereference, srv)
      | Some r \<Rightarrow> (r, emit (HandlerRan msg) srv))"

definition callErrHandler :: "Message \<Rightarrow> Server \<Rightarrow> unit run \<times> Server" where
  "callErrHandler msg srv =
     (case errHandler msg of
        None \<Rightarrow> (Panics NilDereference, srv)
      | Some h \<Rightarrow> (h (err msg), emit (HandlerRan msg) srv))"

text \<open>
  The \<open>switch msg.t\<close> of \<open>dispatchMessage\<close> for the kinds that run on the
  dispatcher's own goroutine. The \<open>default\<close> branch warns and returns.
\<close>

definition execMessage :: "Message \<Rightarrow> Server \<Rightarrow> unit run \<times> Server" where
  "execMessage msg srv =
     (case t msg of
        MessageTypePacket \<Rightarrow>
          (case OnConnectionPacketPreprocessEvent srv (conn msg) (packet msg) of
             Panics p \<Rightarrow> (Panics p, srv)
           | Returns (abort, newPacket) \<Rightarrow>
               if \<not> abort then (OnConnectionReceivePacketEvent srv (conn msg) newPacket, srv)
               else (Returns (), srv))
      | MessageTypeTicker \<Rightarrow> callOrdinary msg srv
      | MessageTypeShuntTicker \<Rightarrow> callOrdinary msg srv
      | MessageTypeAsyncCallback \<Rightarrow> callErrHandler msg srv
      | MessageTypeShuntAsyncCallback \<Rightarrow> callErrHandler msg srv
      | MessageTypeUniqueAsyncCallback \<Rightarrow> callErrHandler msg srv
      | MessageTypeUniqueShuntAsyncCallback \<Rightarrow> callErrHandler msg srv
      | MessageTypeSystem \<Rightarrow> callOrdinary msg srv
      | MessageTypeShunt \<Rightarrow> callOrdinary msg srv
      | _ \<Rightarrow> (Returns (), srv))"

text \<open>
  The deferred function of the synchronous path: it recovers a panic of the
  handler and reports it, releases the unique key of a unique callback, counts the
  message down and returns the record to the pool unless the server is closed.
\<close>

definition deferred :: "addr \<Rightarrow> Message \<Rightarrow> unit run \<Rightarrow> Server \<Rightarrow> Server" where
  "deferred d msg r srv =
     (let srv1 = (case r of Panics p \<Rightarrow> emit (MessageError msg p) srv | Returns _ \<Rightarrow> srv);
          srv2 = (if t msg = MessageTypeUniqueAsyncCallback
                     \<or> t msg = MessageTypeUniqueShuntAsyncCallback
                  then dispatcherAntiUnique d (name msg) srv1 else srv1);
          srv3 = srv2\<lparr>messageCounter := messageCounter srv2 - 1\<rparr>
      in if closed srv3 = 0 then messagePoolRelease msg srv3 else srv3)"

text \<open>
  The function submitted to the \<open>ants\<close> pool for an async kind. After the caller
  returned its error: with a callback, the matching callback message is pushed;
  without one, the key is released at once.
\<close>

definition pushCallback ::
  "Message \<Rightarrow> error option \<Rightarrow> Server \<Rightarrow> panic option \<times> Server" where
  "pushCallback msg e srv =
     (if conn msg = None then
        (if t msg = MessageTypeUniqueAsync
         then PushUniqueAsyncCallbackMessage (name msg) e (errHandler msg) srv
         else PushAsyncCallbackMessage e (errHandler msg) srv)
      else if t msg = MessageTypeUniqueShuntAsync
        then PushUniqueShuntAsyncCallbackMessage (conn msg) (name msg) e (errHandler msg) srv
      else PushShuntAsyncCallbackMessage (conn msg) e (errHandler msg) srv)"

definition asyncTask :: "addr \<Rightarrow> Message \<Rightarrow> Server \<Rightarrow> Server" where
  "asyncTask d msg srv =
     (let (r, srv1) =
            (case (case exceptionHandler msg of
                     None \<Rightarrow> (Returns None, srv)
                   | Some h \<Rightarrow> (h, emit (HandlerRan msg) srv)) of
               (Panics p, s) \<Rightarrow> (Some p, s)
             | (Returns e, s) \<Rightarrow>
                 if errHandler msg \<noteq> None then pushCallback msg e s
                 else (None, dispatcherAntiUnique d (name msg) s));
          srv2 = (case r of
                    None \<Rightarrow> srv1
                  | Some p \<Rightarrow>
                      emit (MessageError msg p)
                        (if t msg = MessageTypeUniqueAsync \<or> t msg = MessageTypeUniqueShuntAsync
                         then dispatcherAntiUnique d (name msg) srv1 else srv1));
          srv3 = srv2\<lparr>messageCounter := messageCounter srv2 - 1\<rparr>
      in if closed srv3 = 0 then messagePoolRelease msg srv3 else srv3)"

text \<open>
  \<open>dispatchMessage\<close>. An async kind is handed to \<open>srv.ants.Submit\<close>: on a nil pool
  that call panics, and nothing in \<open>dispatchMessage\<close> recovers it. The pool runs the
  task on another goroutine; here it runs at once.
\<close>

definition dispatchMessage :: "addr \<Rightarrow> Message \<Rightarrow> Server \<Rightarrow> panic option \<times> Server" where
  "dispatchMessage d msg srv =
     (if \<not> isAsync (t msg) then
        (let (r, srv1) = execMessage msg srv in (None, deferred d msg r srv1))
      else if \<not> ants srv then (Some NilDereference, srv)
      else (None, asyncTask d msg srv))"

text \<open>
  Modelled from the spec: the consumer loop \<open>start\<close> of a dispatcher (section 4.B)
  takes the queued items in order and calls the handler, \<open>dispatchMessage\<close>, on
  each. \<open>work\<close> is one turn of that loop.
\<close>

definition work :: "addr \<Rightarrow> Server \<Rightarrow> panic option \<times> Server" where
  "work d srv =
     (case queue (heap srv d) of
        [] \<Rightarrow> (None, srv)
      | m # ms \<Rightarrow>
          dispatchMessage d m (srv\<lparr>heap := (heap srv)(d := (heap srv d)\<lparr>queue := ms\<rparr>)\<rparr>))"

subsection \<open>New and onMessageSystemInit\<close>

text \<open>
  \<open>New\<close> before its options are applied: empty registry, no system dispatcher yet;
  the event handlers registered on the server are its arguments.
  \<open>onMessageSystemInit\<close> starts the statistics and creates the system dispatcher,
  which is not entered into \<open>dispatchers\<close>.
\<close>

definition New ::
  "Network \<Rightarrow> (Message \<Rightarrow> bool)
     \<Rightarrow> (string option \<Rightarrow> 8 word list \<Rightarrow> (bool \<times> 8 word list) run)
     \<Rightarrow> (string option \<Rightarrow> 8 word list \<Rightarrow> unit run) \<Rightarrow> Server" where
  "New nw before preprocess receive =
     \<lparr>network = nw, websocketCompression = 0, messageStatistics = [],
      messageStatisticsLimit = 0, messageStatisticsLock = False,
      addr = [], closed = 0, messageCounter = 0, ants = True,
      heap = (\<lambda>_. \<lparr>dname = [], queue = [], uniques = {}, closing = False\<rparr>),
      nextAddr = 0, systemDispatcher = None, dispatchers = Map.empty,
      dispatcherMember = Map.empty, currDispatcher = Map.empty,
      multiple = False, multipleRuntimeErrorChan = False, gServer = False,
      tickerPool = False, ticker = False, grpcServer = False, httpServer = False,
      OnMessageExecBeforeEvent = before,
      OnConnectionPacketPreprocessEvent = preprocess,
      OnConnectionReceivePacketEvent = receive,
      trace = []\<rparr>"

definition onMessageSystemInit :: "Server \<Rightarrow> Server" where
  "onMessageSystemInit srv =
     (let srv1 = startMessageStatistics srv;
          (d, srv2) = generateDispatcher serverSystemDispatcher srv1
      in srv2\<lparr>systemDispatcher := Some d\<rparr>)"

subsection \<open>Running servers\<close>

text \<open>
  \<open>statsReady\<close>: the head bucket that \<open>hitMessageStatistics\<close> bumps exists (it does
  from \<open>startMessageStatistics\<close> on). \<open>registryInv\<close>: every registered dispatcher
  carries the name it is registered under and is open, and every pointer the
  server holds was handed out by \<open>generateDispatcher\<close>.
\<close>

definition statsReady :: "Server \<Rightarrow> bool" where
  "statsReady srv = (HasMessageStatistics srv \<longrightarrow> messageStatistics srv \<noteq> [])"

definition registryInv :: "Server \<Rightarrow> bool" where
  "registryInv srv =
     ((\<forall>n d. dispatchers srv n = Some d \<longrightarrow>
          dname (heap srv d) = n \<and> d < nextAddr srv \<and> \<not> closing (heap srv d))
      \<and> (\<forall>c d. currDispatcher srv c = Some d \<longrightarrow> d < nextAddr srv)
      \<and> (\<forall>d. systemDispatcher srv = Some d \<longrightarrow> d < nextAddr srv))"

text \<open>
  A server for the examples: websocket network, handlers that admit every message,
  keep every packet and return; \<open>started\<close> is its state once the message system is
  initialised.
\<close>

definition admit :: "Message \<Rightarrow> bool" where
  "admit m = True"

definition keepPacket :: "string option \<Rightarrow> 8 word list \<Rightarrow> (bool \<times> 8 word list) run" where
  "keepPacket c p = Returns (False, p)"

definition receive :: "string option \<Rightarrow> 8 word list \<Rightarrow> unit run" where
  "receive c p = Returns ()"

definition started :: Server where
  "started = onMessageSystemInit (New NetworkWebsocket admit keepPacket receive)"

subsection \<open>Kinds routed by connection; the stages of UseShunt\<close>

definition shuntKind :: "MessageType \<Rightarrow> bool" where
  "shuntKind k = (k = MessageTypePacket \<or> k = MessageTypeShunt \<or> k = MessageTypeShuntTicker
      \<or> k = MessageTypeShuntAsync \<or> k = MessageTypeShuntAsyncCallback
      \<or> k = MessageTypeUniqueShuntAsync \<or> k = MessageTypeUniqueShuntAsyncCallback)"

text \<open>
  \<open>UseShunt\<close> runs in three stages, named here for the proofs: the dispatcher of
  the name is looked up or created (\<open>resolved\<close>), an emptied previous shunt is torn
  down (\<open>torn\<close>), and the connection is entered into the tables (\<open>joined\<close>).
\<close>

definition resolved :: "string \<Rightarrow> Server \<Rightarrow> addr \<times> Server" where
  "resolved n srv =
     (case dispatchers srv n of
        Some d \<Rightarrow> (d, srv)
      | None \<Rightarrow>
          (let (d, s) = generateDispatcher n srv;
               s1 = emit (ShuntChannelCreated (dname (heap s d))) s
           in (d, s1\<lparr>dispatchers := (dispatchers s1)(n \<mapsto> d)\<rparr>)))"

definition joined :: "string \<Rightarrow> string \<Rightarrow> addr \<Rightarrow> Server \<Rightarrow> Server" where
  "joined cid n d s =
     s\<lparr>currDispatcher := (currDispatcher s)(cid \<mapsto> d),
       dispatcherMember := (dispatcherMember s)(n \<mapsto> insert cid (members s n))\<rparr>"

definition torn :: "addr \<Rightarrow> addr \<Rightarrow> Server \<Rightarrow> Server" where
  "torn cur d srv2 =
     (let srv3 = srv2\<lparr>dispatchers := (dispatchers srv2)(dname (heap srv2 cur) := None)\<rparr>;
          srv4 = srv3\<lparr>heap := transfer cur d (heap srv3)\<rparr>;
          srv5 = emit (ShuntChannelClosed (dname (heap srv4 d))) srv4
      in dispatcherClose cur srv5)"

subsection \<open>Example messages and states\<close>

text \<open>
  Two packets of connection \<open>c1\<close>, a system message, an error message; the started
  server with \<open>c1\<close> on shunt \<open>A\<close>, and the same with the first packet queued.
\<close>

definition P1 :: Message where
  "P1 = castToPacketMessage (Some ''c1'') [1] emptyMessage"

definition P2 :: Message where
  "P2 = castToPacketMessage (Some ''c1'') [2] emptyMessage"

definition Y1 :: Message where
  "Y1 = castToSystemMessage (Some (Returns ())) emptyMessage"

definition E1 :: Message where
  "E1 = castToErrorMessage (Some ''boom'') MessageErrorActionShutdown emptyMessage"

definition onA :: Server where
  "onA = UseShunt ''c1'' ''A'' started"

definition onA_P1 :: Server where
  "onA_P1 = snd (pushMessage P1 onA)"

subsection \<open>Example unique asyncs\<close>

text \<open>
  A unique async with key \<open>K\<close> whose caller returns nil and whose callback returns
  (\<open>U1\<close>), the callback message pushed for it (\<open>K1\<close>), and the same unique async
  sent through \<open>PushUniqueShuntAsyncMessage\<close> with a nil connection (\<open>N1\<close>).
  \<open>inflight\<close>: \<open>U1\<close> pushed on the started server; \<open>pending\<close>: its caller has run and
  the callback is queued; \<open>popped\<close>: the worker has taken the callback off the
  queue. \<open>leak1\<close>, \<open>leak2\<close>, \<open>leak3\<close>: \<open>N1\<close> pushed, its caller run, its callback
  run.
\<close>

definition finish :: "error option \<Rightarrow> unit run" where
  "finish e = Returns ()"

definition U1 :: Message where
  "U1 = castToUniqueAsyncMessage ''K'' (Some (Returns None)) (Some finish) emptyMessage"

definition N1 :: Message where
  "N1 = castToUniqueShuntAsyncMessage None ''K'' (Some (Returns None)) (Some finish) emptyMessage"

definition K1 :: Message where
  "K1 = castToUniqueAsyncCallbackMessage ''K'' None (Some finish) emptyMessage"

definition inflight :: Server where
  "inflight = snd (pushMessage U1 started)"

definition pending :: Server where
  "pending = snd (work 0 inflight)"

definition popped :: Server where
  "popped = pending\<lparr>heap := (heap pending)(0 := (heap pending 0)\<lparr>queue := []\<rparr>)\<rparr>"

definition leak1 :: Server where
  "leak1 = snd (pushMessage N1 started)"

definition leak2 :: Server where
  "leak2 = snd (work 0 leak1)"

definition leak3 :: Server where
  "leak3 = snd (work 0 leak2)"

subsection \<open>shutdown\<close>

text \<open>
  \<open>shutdown\<close> polls the message counter while other goroutines finish their
  messages. The values that the successive \<open>messageCounter.Load()\<close> of the loop
  condition read are given by \<open>obs\<close>; \<open>waitDrain obs i\<close> is the loop from the
  \<open>i\<close>-th read on and answers the index of the read that ended it, or nothing if
  no read ever does.
\<close>

partial_function (option) waitDrain :: "(nat \<Rightarrow> int) \<Rightarrow> nat \<Rightarrow> nat option" where
  "waitDrain obs i = (if obs i > 0 then waitDrain obs (Suc i) else Some i)"

definition second :: nat where
  "second = 1000000000"

text \<open>
  The state after \<open>k\<close> rounds of the loop: each round logs and sleeps one second;
  the counter then stands at the value of the read that ended the loop.
\<close>

definition waited :: "nat \<Rightarrow> (nat \<Rightarrow> int) \<Rightarrow> Server \<Rightarrow> Server" where
  "waited k obs srv =
     srv\<lparr>messageCounter := obs k,
         trace := trace srv @ concat (replicate k [LogWaiting, Sleep second])\<rparr>"

definition logError :: "error option \<Rightarrow> Server \<Rightarrow> Server" where
  "logError e srv = (case e of None \<Rightarrow> srv | Some x \<Rightarrow> emit (LogShutdownError x) srv)"

text \<open>
  \<open>for s, d := range srv.dispatchers\<close>: Go visits the keys of a map in an order of
  its choosing; \<open>names\<close> is that order. Each dispatcher met is announced closed,
  closed, and deleted.
\<close>

fun closeAll :: "string list \<Rightarrow> Server \<Rightarrow> Server" where
  "closeAll [] srv = srv"
| "closeAll (n # ns) srv =
     closeAll ns
       (case dispatchers srv n of
          None \<Rightarrow> srv
        | Some d \<Rightarrow>
            (let s = dispatcherClose d (emit (ShuntChannelClosed (dname (heap srv d))) srv)
             in s\<lparr>dispatchers := (dispatchers s)(n := None)\<rparr>))"

definition provided :: "bool \<Rightarrow> (Server \<Rightarrow> Server) \<Rightarrow> Server \<Rightarrow> Server" where
  "provided b f srv = (if b then f srv else srv)"

text \<open>
  The deferred functions of \<open>shutdown\<close>, run when it returns or panics: the
  error is sent to the multi-server channel if there is one.
\<close>

definition shutdownDeferred :: "error option \<Rightarrow> Server \<Rightarrow> Server" where
  "shutdownDeferred e srv = provided (multipleRuntimeErrorChan srv) (emit (RuntimeErrorChanSend e)) srv"

text \<open>
  Everything after the wait loop. With an error and no multi-server supervisor,
  \<open>log.Panic\<close> logs the error and ends the function by a panic, before the close
  channel is signalled. (The supervisor's list of servers is not part of this state.)
\<close>

definition teardown :: "error option \<Rightarrow> string list \<Rightarrow> Server \<Rightarrow> panic option \<times> Server" where
  "teardown e names srv =
     (let s1 = provided (\<not> multiple srv) (emit StopEvent) srv;
          s2 = emit ContextCancel s1;
          s3 = provided (gServer s2) (emit GnetStop) s2;
          s4 = provided (tickerPool s3) (emit TickerPoolRelease) s3;
          s5 = provided (ticker s4) (emit TickerRelease) s4;
          s6 = provided (ants s5) (\<lambda>s. (emit AntsRelease s)\<lparr>ants := False\<rparr>) s5;
          s7 = closeAll names s6;
          s8 = provided (grpcServer s7) (emit GrpcGracefulStop) s7;
          s9 = provided (httpServer s8) (emit (HttpShutdown (3 * second))) s8
      in case e of
           Some x \<Rightarrow>
             if multiple s9
             then (None, shutdownDeferred e (emit CloseChannelSignal (emit (RegExitEvent x) s9)))
             else (Some (PanicValue ''Server''), shutdownDeferred e (emit (LogPanic e) s9))
         | None \<Rightarrow>
             (None, shutdownDeferred e (emit CloseChannelSignal (emit LogShutdownNormal s9))))"

definition shutdown ::
  "error option \<Rightarrow> (nat \<Rightarrow> int) \<Rightarrow> string list \<Rightarrow> Server \<Rightarrow> (panic option \<times> Server) option" where
  "shutdown e obs names srv =
     (if closed srv \<noteq> 0 then Some (None, srv)
      else
        (case waitDrain obs 0 of
           None \<Rightarrow> None
         | Some k \<Rightarrow> Some (teardown e names (waited k obs (logError e (srv\<lparr>closed := 1\<rparr>))))))"

text \<open>
  \<open>steady s s'\<close>: from \<open>s\<close> to \<open>s'\<close> the closed flag and the counter are untouched
  and the trace has grown by steps that are neither a wait log nor a sleep.
\<close>

definition steady :: "Server \<Rightarrow> Server \<Rightarrow> bool" where
  "steady s s' =
     (closed s' = closed s \<and> messageCounter s' = messageCounter s
      \<and> (\<exists>tl. trace s' = trace s @ tl \<and> LogWaiting \<notin> set tl \<and> (\<forall>n. Sleep n \<notin> set tl)))"

text \<open>
  Two courses of the counter for the examples: two messages in flight that are
  done after two polls, and a counter that never drains.
\<close>

definition draining :: "nat \<Rightarrow> int" where
  "draining i = (if i < 2 then 2 - int i else 0)"

definition busy :: "nat \<Rightarrow> int" where
  "busy i = 1"

section \<open>The earlier variant: server/server.go\<close>

text \<open>
  The earlier server has no per-connection table: a shunt is chosen for each
  message by the optional \<open>shuntMatcher\<close>, dispatchers are created on first use by
  \<open>useDispatcher\<close> (the system dispatcher too, under the name \<open>system\<close>), and the
  \<open>Error\<close> kind exists. Its fields and functions that share a name with the later
  variant carry the suffix \<open>_sm\<close>. \<open>messagePoolClosed\<close> is \<open>messagePool.IsClose()\<close>.
\<close>

record Server_sm =
  messagePoolClosed :: bool
  OnMessageExecBeforeEvent_sm :: "Message \<Rightarrow> bool"
  OnConnectionPacketPreprocessEvent_sm ::
    "string option \<Rightarrow> 8 word list \<Rightarrow> (bool \<times> 8 word list) run"
  OnConnectionReceivePacketEvent_sm :: "string option \<Rightarrow> 8 word list \<Rightarrow> unit run"
  shuntMatcher :: "(string option \<Rightarrow> string) option"
  dispatchers_sm :: "string \<rightharpoonup> addr"
  heap_sm :: "addr \<Rightarrow> dispatcher"
  nextAddr_sm :: addr
  messageCounter_sm :: int
  isShutdown :: bool
  isRunning :: bool
  multiple_sm :: bool
  multipleRuntimeErrorChan_sm :: bool
  gServer_sm :: bool
  ticker_sm :: bool
  ants_sm :: bool
  grpcServer_sm :: bool
  httpServer_sm :: bool
  trace_sm :: "event list"

definition emit_sm :: "event \<Rightarrow> Server_sm \<Rightarrow> Server_sm" where
  "emit_sm e srv = srv\<lparr>trace_sm := trace_sm srv @ [e]\<rparr>"

definition provided_sm :: "bool \<Rightarrow> (Server_sm \<Rightarrow> Server_sm) \<Rightarrow> Server_sm \<Rightarrow> Server_sm" where
  "provided_sm b f srv = (if b then f srv else srv)"

text \<open>
  \<open>useDispatcher\<close>: the dispatcher registered under the name, or a new one (the
  earlier \<open>generateDispatcher\<close> takes the handler only, so the new dispatcher
  carries no name); the flag tells whether it was created.
\<close>

definition useDispatcher :: "string \<Rightarrow> Server_sm \<Rightarrow> (addr \<times> bool) \<times> Server_sm" where
  "useDispatcher n srv =
     (case dispatchers_sm srv n of
        Some d \<Rightarrow> ((d, False), srv)
      | None \<Rightarrow>
          ((nextAddr_sm srv, True),
           srv\<lparr>heap_sm := (heap_sm srv)(nextAddr_sm srv :=
                   \<lparr>dname = [], queue = [], uniques = {}, closing = False\<rparr>),
               nextAddr_sm := Suc (nextAddr_sm srv),
               dispatchers_sm := (dispatchers_sm srv)(n \<mapsto> nextAddr_sm srv)\<rparr>))"

text \<open>
  The \<open>switch message.t\<close> of the earlier \<open>pushMessage\<close>. A packet falls through to
  the shunt kinds when a matcher is set; a shunt kind without a matcher calls a
  nil function.
\<close>

definition selectDispatcher_sm ::
  "Message \<Rightarrow> Server_sm \<Rightarrow> panic + ((addr \<times> bool) \<times> Server_sm) option" where
  "selectDispatcher_sm message srv =
     (let byMatcher =
            (case shuntMatcher srv of
               None \<Rightarrow> Inl NilDereference
             | Some f \<Rightarrow> Inr (Some (useDispatcher (f (conn message)) srv)));
          system = Inr (Some (useDispatcher serverSystemDispatcher srv))
      in case t message of
           MessageTypePacket \<Rightarrow> (if shuntMatcher srv = None then system else byMatcher)
         | MessageTypeShuntTicker \<Rightarrow> byMatcher
         | MessageTypeShuntAsync \<Rightarrow> byMatcher
         | MessageTypeShuntAsyncCallback \<Rightarrow> byMatcher
         | MessageTypeSystem \<Rightarrow> system
         | MessageTypeAsync \<Rightarrow> system
         | MessageTypeAsyncCallback \<Rightarrow> system
         | MessageTypeError \<Rightarrow> system
         | MessageTypeTicker \<Rightarrow> system
         | _ \<Rightarrow> Inr None)"

definition pushMessage_sm :: "Message \<Rightarrow> Server_sm \<Rightarrow> panic option \<times> Server_sm" where
  "pushMessage_sm message srv =
     (if messagePoolClosed srv \<or> \<not> OnMessageExecBeforeEvent_sm srv message
      then (None, emit_sm (PoolRelease message) srv)
      else
        (case selectDispatcher_sm message srv of
           Inl p \<Rightarrow> (Some p, srv)
         | Inr None \<Rightarrow> (None, srv)
         | Inr (Some ((d, created), srv1)) \<Rightarrow>
             (None, srv1\<lparr>messageCounter_sm := messageCounter_sm srv1 + 1,
                         heap_sm := (heap_sm srv1)(d := put message (heap_sm srv1 d))\<rparr>)))"

definition PushErrorMessage ::
  "error option \<Rightarrow> MessageErrorAction \<Rightarrow> Server_sm \<Rightarrow> panic option \<times> Server_sm" where
  "PushErrorMessage e action srv = pushMessage_sm (castToErrorMessage e action emptyMessage) srv"

definition PushAsyncCallbackMessage_sm ::
  "error option \<Rightarrow> (error option \<Rightarrow> unit run) option \<Rightarrow> Server_sm
     \<Rightarrow> panic option \<times> Server_sm" where
  "PushAsyncCallbackMessage_sm e callback srv =
     pushMessage_sm (castToAsyncCallbackMessage e callback emptyMessage) srv"

definition PushShuntAsyncCallbackMessage_sm ::
  "string option \<Rightarrow> error option \<Rightarrow> (error option \<Rightarrow> unit run) option \<Rightarrow> Server_sm
     \<Rightarrow> panic option \<times> Server_sm" where
  "PushShuntAsyncCallbackMessage_sm c e callback srv =
     (if shuntMatcher srv = None then PushAsyncCallbackMessage_sm e callback srv
      else pushMessage_sm (castToShuntAsyncCallbackMessage c e callback emptyMessage) srv)"

subsection \<open>The earlier shutdown\<close>

text \<open>
  No compare-and-swap here: \<open>shutdown\<close> logs the error it was given, sets
  \<open>isShutdown\<close> (\<open>shutdownBegin\<close>), waits for the counter as above and tears down.
\<close>

definition shutdownBegin :: "error option \<Rightarrow> Server_sm \<Rightarrow> Server_sm" where
  "shutdownBegin e srv =
     (case e of None \<Rightarrow> srv | Some x \<Rightarrow> emit_sm (LogShutdownError x) srv)\<lparr>isShutdown := True\<rparr>"

definition waited_sm :: "nat \<Rightarrow> (nat \<Rightarrow> int) \<Rightarrow> Server_sm \<Rightarrow> Server_sm" where
  "waited_sm k obs srv =
     srv\<lparr>messageCounter_sm := obs k,
         trace_sm := trace_sm srv @ concat (replicate k [LogWaiting, Sleep second])\<rparr>"

fun closeAll_sm :: "string list \<Rightarrow> Server_sm \<Rightarrow> Server_sm" where
  "closeAll_sm [] srv = srv"
| "closeAll_sm (n # ns) srv =
     closeAll_sm ns
       (case dispatchers_sm srv n of
          None \<Rightarrow> srv
        | Some d \<Rightarrow>
            srv\<lparr>heap_sm := (heap_sm srv)(d := close (heap_sm srv d)),
                dispatchers_sm := (dispatchers_sm srv)(n := None)\<rparr>)"

definition shutdownDeferred_sm :: "error option \<Rightarrow> Server_sm \<Rightarrow> Server_sm" where
  "shutdownDeferred_sm e srv =
     provided_sm (multipleRuntimeErrorChan_sm srv) (emit_sm (RuntimeErrorChanSend e)) srv"

definition teardown_sm ::
  "error option \<Rightarrow> string list \<Rightarrow> Server_sm \<Rightarrow> panic option \<times> Server_sm" where
  "teardown_sm e names srv =
     (let s1 = provided_sm (\<not> multiple_sm srv) (emit_sm StopEvent) srv;
          s2 = provided_sm (gServer_sm s1 \<and> isRunning s1) (emit_sm GnetStop) s1;
          s3 = provided_sm (ticker_sm s2) (emit_sm TickerRelease) s2;
          s4 = provided_sm (ants_sm s3) (\<lambda>s. (emit_sm AntsRelease s)\<lparr>ants_sm := False\<rparr>) s3;
          s5 = closeAll_sm names s4;
          s6 = provided_sm (grpcServer_sm s5 \<and> isRunning s5) (emit_sm GrpcGracefulStop) s5;
          s7 = provided_sm (httpServer_sm s6 \<and> isRunning s6)
                 (emit_sm (HttpShutdown (3 * second))) s6
      in case e of
           Some x \<Rightarrow>
             if multiple_sm s7
             then (None, shutdownDeferred_sm e
                           (emit_sm CloseChannelSignal (emit_sm (RegExitEvent x) s7)))
             else (Some (PanicValue ''Server''), shutdownDeferred_sm e (emit_sm (LogPanic e) s7))
         | None \<Rightarrow>
             (None, shutdownDeferred_sm e
                      (emit_sm CloseChannelSignal (emit_sm LogShutdownNormal s7))))"

definition shutdown_sm ::
  "error option \<Rightarrow> (nat \<Rightarrow> int) \<Rightarrow> string list \<Rightarrow> Server_sm
     \<Rightarrow> (panic option \<times> Server_sm) option" where
  "shutdown_sm e obs names srv =
     (case waitDrain obs 0 of
        None \<Rightarrow> None
      | Some k \<Rightarrow> Some (teardown_sm e names (waited_sm k obs (shutdownBegin e srv))))"

subsection \<open>The earlier dispatchMessage\<close>

text \<open>
  \<open>err.(error)\<close> in the recovery: a runtime panic is an error, a string handed to
  \<open>panic\<close> is not. Modelled from the spec: \<open>log.Panic\<close> (package \<open>utils/log\<close> is not
  among the sources) writes the log entry with its fields, here the carried error,
  and panics with the message of the entry.
\<close>

definition isError :: "panic \<Rightarrow> bool" where
  "isError p = (case p of PanicValue _ \<Rightarrow> False | _ \<Rightarrow> True)"

definition logPanic :: "string \<Rightarrow> error option \<Rightarrow> Server_sm \<Rightarrow> unit run \<times> Server_sm" where
  "logPanic msg e srv = (Panics (PanicValue msg), emit_sm (LogPanic e) srv)"

definition callOrdinary_sm :: "Message \<Rightarrow> Server_sm \<Rightarrow> unit run \<times> Server_sm" where
  "callOrdinary_sm msg srv =
     (case ordinaryHandler msg of
        None \<Rightarrow> (Panics NilDereference, srv)
      | Some r \<Rightarrow> (r, emit_sm (HandlerRan msg) srv))"

definition callErrHandler_sm :: "Message \<Rightarrow> Server_sm \<Rightarrow> unit run \<times> Server_sm" where
  "callErrHandler_sm msg srv =
     (case errHandler msg of
        None \<Rightarrow> (Panics NilDereference, srv)
      | Some h \<Rightarrow> (h (err msg), emit_sm (HandlerRan msg) srv))"

text \<open>The tail shared by the deferred function and the pool task.\<close>

definition recovered_sm :: "Message \<Rightarrow> unit run \<Rightarrow> Server_sm \<Rightarrow> Server_sm" where
  "recovered_sm msg r srv =
     (let s1 = (case r of
                  Returns _ \<Rightarrow> srv
                | Panics p \<Rightarrow>
                    provided_sm (isError p) (emit_sm (MessageError msg p))
                      (emit_sm (LogRecovered p) srv));
          s2 = s1\<lparr>messageCounter_sm := messageCounter_sm s1 - 1\<rparr>
      in provided_sm (\<not> isShutdown s2) (emit_sm (PoolRelease msg)) s2)"

definition asyncTask_sm :: "Message \<Rightarrow> Server_sm \<Rightarrow> Server_sm" where
  "asyncTask_sm msg srv =
     (let (r, s1) =
            (case (case exceptionHandler msg of
                     None \<Rightarrow> (Returns None, srv)
                   | Some h \<Rightarrow> (h, emit_sm (HandlerRan msg) srv)) of
               (Panics p, s) \<Rightarrow> (Panics p, s)
             | (Returns e, s) \<Rightarrow>
                 if errHandler msg \<noteq> None then
                   (case (if conn msg = None
                          then PushAsyncCallbackMessage_sm e (errHandler msg) s
                          else PushShuntAsyncCallbackMessage_sm (conn msg) e (errHandler msg) s) of
                      (None, s') \<Rightarrow> (Returns (), s')
                    | (Some p, s') \<Rightarrow> (Panics p, s'))
                 else (Returns (), s))
      in recovered_sm msg r s1)"

text \<open>
  The \<open>switch msg.t\<close>. The \<open>Error\<close> kind is dispatched by its action; with
  \<open>MessageErrorActionShutdown\<close> it calls \<open>shutdown\<close>, which may never return.
\<close>

definition execMessage_sm ::
  "Message \<Rightarrow> (nat \<Rightarrow> int) \<Rightarrow> string list \<Rightarrow> Server_sm \<Rightarrow> (unit run \<times> Server_sm) option" where
  "execMessage_sm msg obs names srv =
     (case t msg of
        MessageTypePacket \<Rightarrow>
          Some (case OnConnectionPacketPreprocessEvent_sm srv (conn msg) (packet msg) of
                  Panics p \<Rightarrow> (Panics p, srv)
                | Returns (abort, newPacket) \<Rightarrow>
                    if \<not> abort
                    then (OnConnectionReceivePacketEvent_sm srv (conn msg) newPacket, srv)
                    else (Returns (), srv))
      | MessageTypeError \<Rightarrow>
          (case errAction msg of
             MessageErrorActionNone \<Rightarrow> Some (logPanic ''Server'' (err msg) srv)
           | MessageErrorActionShutdown \<Rightarrow>
               (case shutdown_sm (err msg) obs names srv of
                  None \<Rightarrow> None
                | Some (None, s) \<Rightarrow> Some (Returns (), s)
                | Some (Some p, s) \<Rightarrow> Some (Panics p, s))
           | MessageErrorActionOther _ \<Rightarrow> Some (Returns (), srv))
      | MessageTypeTicker \<Rightarrow> Some (callOrdinary_sm msg srv)
      | MessageTypeShuntTicker \<Rightarrow> Some (callOrdinary_sm msg srv)
      | MessageTypeAsync \<Rightarrow>
          Some (if ants_sm srv then (Returns (), asyncTask_sm msg srv)
                else (Panics NilDereference, srv))
      | MessageTypeShuntAsync \<Rightarrow>
          Some (if ants_sm srv then (Returns (), asyncTask_sm msg srv)
                else (Panics NilDereference, srv))
      | MessageTypeAsyncCallback \<Rightarrow> Some (callErrHandler_sm msg srv)
      | MessageTypeShuntAsyncCallback \<Rightarrow> Some (callErrHandler_sm msg srv)
      | MessageTypeSystem \<Rightarrow> Some (callOrdinary_sm msg srv)
      | _ \<Rightarrow> Some (Returns (), srv))"

text \<open>
  Every kind but \<open>Async\<close> runs under the deferred recovery; a panic of an \<open>Async\<close>
  submission leaves \<open>dispatchMessage\<close>.
\<close>

definition dispatchMessage_sm ::
  "Message \<Rightarrow> (nat \<Rightarrow> int) \<Rightarrow> string list \<Rightarrow> Server_sm
     \<Rightarrow> (panic option \<times> Server_sm) option" where
  "dispatchMessage_sm msg obs names srv =
     (case execMessage_sm msg obs names srv of
        None \<Rightarrow> None
      | Some (r, s) \<Rightarrow>
          if t msg \<noteq> MessageTypeAsync then Some (None, recovered_sm msg r s)
          else (case r of
                  Panics p \<Rightarrow> Some (Some p, s)
                | Returns _ \<Rightarrow> Some (None, s)))"

text \<open>An earlier-variant server for the examples: running, nothing registered yet.\<close>

definition started_sm :: Server_sm where
  "started_sm =
     \<lparr>messagePoolClosed = False, OnMessageExecBeforeEvent_sm = admit,
      OnConnectionPacketPreprocessEvent_sm = keepPacket,
      OnConnectionReceivePacketEvent_sm = receive, shuntMatcher = None,
      dispatchers_sm = Map.empty,
      heap_sm = (\<lambda>_. \<lparr>dname = [], queue = [], uniques = {}, closing = False\<rparr>),
      nextAddr_sm = 0, messageCounter_sm = 0, isShutdown = False, isRunning = True,
      multiple_sm = False, multipleRuntimeErrorChan_sm = False, gServer_sm = False,
      ticker_sm = False, ants_sm = True, grpcServer_sm = False, httpServer_sm = False,
      trace_sm = []\<rparr>"

definition E0 :: Message where
  "E0 = castToErrorMessage (Some ''boom'') MessageErrorActionNone emptyMessage"

section \<open>The gateway frame\<close>

text \<open>
  \<open>newGatewayConn\<close> (\<open>server/conn.go\<close>) gives a connection a function \<open>gw\<close>; \<open>Write\<close>
  on such a connection calls it and returns. \<open>gw\<close> builds a \<open>GP\<close> of the origin
  connection id, the frame type, the payload and the current time, marshals it,
  appends the byte \<open>0xff\<close> and writes the packet on the upstream connection. A Go
  string and a byte slice are sequences of bytes.
\<close>

type_synonym byte = "8 word"

subsection \<open>Decimal integers\<close>

text \<open>
  Modelled from the spec: \<open>super.MarshalJSON\<close> and the \<open>GP\<close> struct are not among the
  sources. Section 6 and scenario S4 of the specification give the wire form: a
  JSON object with the members \<open>C\<close> (string), \<open>WT\<close> (integer), \<open>D\<close> (byte array,
  written in base64 as in S4) and \<open>T\<close> (integer), in this order, without white
  space. The pieces of that form follow: integers in decimal, byte arrays in
  base64 with padding, strings with the quote, the backslash and the control
  characters escaped.
\<close>

definition isDigit :: "byte \<Rightarrow> bool" where
  "isDigit b = (0x30 \<le> b \<and> b \<le> 0x39)"







definition stops :: "byte list \<Rightarrow> bool" where
  "stops r = (case r of [] \<Rightarrow> True | b # _ \<Rightarrow> \<not> isDigit b)"


subsection \<open>Base64\<close>







subsection \<open>JSON strings and UTF-8\<close>








subsection \<open>Marshalling and parsing a frame\<close>








subsection \<open>Write on a gateway connection\<close>









section \<open>Options\<close>

text \<open>
  C9. On a \<open>NetworkWebsocket\<close> server, \<open>WithWebsocketCompression level\<close> stores the
  level, without a panic, exactly when \<open>-2 \<le> level \<le> 9\<close> (both endpoints
  included) and panics for every level outside that range.
\<close>

theorem WithWebsocketCompression_range:
  assumes "network srv = NetworkWebsocket"
  shows "(-2 \<le> level \<and> level \<le> 9 \<longrightarrow>
            WithWebsocketCompression level srv = Inr (srv\<lparr>websocketCompression := level\<rparr>))
       \<and> (level < -2 \<or> 9 < level \<longrightarrow>
            WithWebsocketCompression level srv
              = Inl (PanicValue ''websocket: invalid compression level''))"
  using assms by (auto simp: WithWebsocketCompression_def)

theorem WithWebsocketCompression_range_witness:
  "WithWebsocketCompression (-2)
      \<lparr>network = NetworkWebsocket, websocketCompression = 0, messageStatistics = [],
       messageStatisticsLimit = 0, messageStatisticsLock = False\<rparr>
     = Inr \<lparr>network = NetworkWebsocket, websocketCompression = -2, messageStatistics = [],
            messageStatisticsLimit = 0, messageStatisticsLock = False\<rparr>
   \<and> WithWebsocketCompression 9
      \<lparr>network = NetworkWebsocket, websocketCompression = 0, messageStatistics = [],
       messageStatisticsLimit = 0, messageStatisticsLock = False\<rparr>
     = Inr \<lparr>network = NetworkWebsocket, websocketCompression = 9, messageStatistics = [],
            messageStatisticsLimit = 0, messageStatisticsLock = False\<rparr>
   \<and> WithWebsocketCompression 10
      \<lparr>network = NetworkWebsocket, websocketCompression = 0, messageStatistics = [],
       messageStatisticsLimit = 0, messageStatisticsLock = False\<rparr>
     = Inl (PanicValue ''websocket: invalid compression level'')
   \<and> WithWebsocketCompression (-3)
      \<lparr>network = NetworkWebsocket, websocketCompression = 0, messageStatistics = [],
       messageStatisticsLimit = 0, messageStatisticsLock = False\<rparr>
     = Inl (PanicValue ''websocket: invalid compression level'')"
  using WithWebsocketCompression_range
          [of "\<lparr>network = NetworkWebsocket, websocketCompression = 0, messageStatistics = [],
                messageStatisticsLimit = 0, messageStatisticsLock = False\<rparr>" "-2"]
        WithWebsocketCompression_range
          [of "\<lparr>network = NetworkWebsocket, websocketCompression = 0, messageStatistics = [],
                messageStatisticsLimit = 0, messageStatisticsLock = False\<rparr>" 9]
        WithWebsocketCompression_range
          [of "\<lparr>network = NetworkWebsocket, websocketCompression = 0, messageStatistics = [],
                messageStatisticsLimit = 0, messageStatisticsLock = False\<rparr>" 10]
        WithWebsocketCompression_range
          [of "\<lparr>network = NetworkWebsocket, websocketCompression = 0, messageStatistics = [],
                messageStatisticsLimit = 0, messageStatisticsLock = False\<rparr>" "-3"]
  by simp

section \<open>Message statistics\<close>

lemma startMessageStatistics_nonempty:
  "HasMessageStatistics srv \<Longrightarrow> messageStatistics (startMessageStatistics srv) \<noteq> []"
  by (simp add: startMessageStatistics_def)

lemma startMessageStatistics_Has:
  "HasMessageStatistics (startMessageStatistics srv) = HasMessageStatistics srv"
  by (simp add: startMessageStatistics_def HasMessageStatistics_def)

lemma rotateMessageStatistics_nonempty:
  "1 \<le> messageStatisticsLimit r \<Longrightarrow>
   \<exists>r'. rotateMessageStatistics r = Inr r' \<and> messageStatistics r' \<noteq> []"
  by (auto simp: rotateMessageStatistics_def Let_def)



section \<open>pushMessage: routing and enqueueing\<close>

lemma hitMessageStatistics_ready:
  "statsReady srv \<Longrightarrow> fst (hitMessageStatistics srv) = None"
  "heap (snd (hitMessageStatistics srv)) = heap srv"
  "trace (snd (hitMessageStatistics srv)) = trace srv"
  "messageCounter (snd (hitMessageStatistics srv)) = messageCounter srv + 1"
  by (auto simp: hitMessageStatistics_def statsReady_def Let_def HasMessageStatistics_def
        split: list.splits)

lemma pushMessage_vetoed:
  "\<not> OnMessageExecBeforeEvent srv m \<Longrightarrow> pushMessage m srv = (None, messagePoolRelease m srv)"
  by (simp add: pushMessage_def)

lemma dispatcherUnique_present:
  "k \<in> uniques (heap srv d) \<Longrightarrow> dispatcherUnique d k srv = (True, srv)"
  by (simp add: dispatcherUnique_def unique_def insert_absorb)

lemma pushMessage_duplicate:
  assumes "t m = MessageTypeUniqueAsync \<or> t m = MessageTypeUniqueShuntAsync"
      and "targetDispatcher srv m = Some d"
      and "name m \<in> uniques (heap srv d)"
  shows "pushMessage m srv = (None, messagePoolRelease m srv)"
  using assms by (auto simp: pushMessage_def dispatcherUnique_present)

lemma pushMessage_enqueue:
  assumes "OnMessageExecBeforeEvent srv m"
      and "targetDispatcher srv m = Some d"
      and "\<not> ((t m = MessageTypeUniqueAsync \<or> t m = MessageTypeUniqueShuntAsync)
               \<and> name m \<in> uniques (heap srv d))"
      and "statsReady srv" and "\<not> closing (heap srv d)"
  shows "fst (pushMessage m srv) = None"
    and "queue (heap (snd (pushMessage m srv)) d) = queue (heap srv d) @ [m]"
    and "d' \<noteq> d \<Longrightarrow> heap (snd (pushMessage m srv)) d' = heap srv d'"
    and "messageCounter (snd (pushMessage m srv)) = messageCounter srv + 1"
    and "trace (snd (pushMessage m srv)) = trace srv"
  using assms
  by (auto simp: pushMessage_def dispatcherUnique_def unique_def dispatcherPut_def put_def
        hitMessageStatistics_def statsReady_def Let_def HasMessageStatistics_def
        split: list.splits prod.splits option.splits)

lemma pushMessage_other_untouched:
  "targetDispatcher srv m \<noteq> Some d' \<Longrightarrow> heap (snd (pushMessage m srv)) d' = heap srv d'"
  by (auto simp: pushMessage_def dispatcherUnique_def unique_def dispatcherPut_def put_def
        hitMessageStatistics_def Let_def messagePoolRelease_def emit_def
        split: list.splits prod.splits option.splits)

lemma targetDispatcher_shunt:
  "shuntKind (t m) \<Longrightarrow> conn m = Some cid \<Longrightarrow> currDispatcher srv cid = Some d
     \<Longrightarrow> targetDispatcher srv m = Some d"
  by (auto simp: shuntKind_def targetDispatcher_def getConnDispatcher_def)

subsection \<open>The example states, evaluated\<close>

lemma started_simps:
  "systemDispatcher started = Some 0"
  "nextAddr started = Suc 0"
  "dispatchers started = Map.empty"
  "dispatcherMember started = Map.empty"
  "currDispatcher started = Map.empty"
  "trace started = []"
  "OnMessageExecBeforeEvent started = admit"
  "heap started 0 = \<lparr>dname = ''system'', queue = [], uniques = {}, closing = False\<rparr>"
  "statsReady started"
  "closed started = 0"
  "ants started"
  "messageCounter started = 0"
  by (simp_all add: started_def onMessageSystemInit_def New_def generateDispatcher_def
        startMessageStatistics_def HasMessageStatistics_def serverSystemDispatcher_def
        statsReady_def)

lemma onA_simps:
  "systemDispatcher onA = Some 0"
  "nextAddr onA = 2"
  "dispatchers onA = [''A'' \<mapsto> Suc 0]"
  "dispatcherMember onA = [''A'' \<mapsto> {''c1''}]"
  "currDispatcher onA = [''c1'' \<mapsto> Suc 0]"
  "trace onA = [ShuntChannelCreated ''A'']"
  "OnMessageExecBeforeEvent onA = admit"
  "heap onA 0 = \<lparr>dname = ''system'', queue = [], uniques = {}, closing = False\<rparr>"
  "heap onA (Suc 0) = \<lparr>dname = ''A'', queue = [], uniques = {}, closing = False\<rparr>"
  "statsReady onA"
  "closed onA = 0"
  "ants onA"
  "messageCounter onA = 0"
  by (simp_all add: onA_def UseShunt_def generateDispatcher_def emit_def
        members_def statsReady_def HasMessageStatistics_def Let_def
        started_def onMessageSystemInit_def New_def startMessageStatistics_def
        serverSystemDispatcher_def)

lemma example_message_simps:
  "t P1 = MessageTypePacket" "conn P1 = Some ''c1''" "name P1 = []"
  "t P2 = MessageTypePacket" "conn P2 = Some ''c1''" "name P2 = []"
  "t E1 = MessageTypeError" "t Y1 = MessageTypeSystem"
  by (simp_all add: P1_def P2_def E1_def Y1_def castToPacketMessage_def
        castToErrorMessage_def castToSystemMessage_def emptyMessage_def)

lemma onA_P1_simps:
  "systemDispatcher onA_P1 = Some 0"
  "nextAddr onA_P1 = 2"
  "dispatchers onA_P1 = [''A'' \<mapsto> Suc 0]"
  "dispatcherMember onA_P1 = [''A'' \<mapsto> {''c1''}]"
  "currDispatcher onA_P1 = [''c1'' \<mapsto> Suc 0]"
  "trace onA_P1 = [ShuntChannelCreated ''A'']"
  "OnMessageExecBeforeEvent onA_P1 = admit"
  "heap onA_P1 0 = \<lparr>dname = ''system'', queue = [], uniques = {}, closing = False\<rparr>"
  "heap onA_P1 (Suc 0) = \<lparr>dname = ''A'', queue = [P1], uniques = {}, closing = False\<rparr>"
  "statsReady onA_P1"
  "messageCounter onA_P1 = 1"
  by (simp_all add: onA_P1_def pushMessage_def admit_def targetDispatcher_def
        example_message_simps getConnDispatcher_def hitMessageStatistics_def dispatcherPut_def
        put_def Let_def statsReady_def HasMessageStatistics_def onA_def UseShunt_def started_def
        onMessageSystemInit_def New_def generateDispatcher_def startMessageStatistics_def
        emit_def members_def serverSystemDispatcher_def)

subsection \<open>Which dispatcher a message goes to\<close>

text \<open>
  C3, as the code has it. \<open>pushMessage\<close> picks the dispatcher by the kind of the
  message: \<open>Packet\<close>, \<open>Shunt\<close> and the other shunt kinds go to the current
  dispatcher of the message's connection, or to the system dispatcher when the
  connection is nil or has no shunt; \<open>System\<close>, \<open>Async\<close>, \<open>AsyncCallback\<close>,
  \<open>UniqueAsync\<close>, \<open>UniqueAsyncCallback\<close> and \<open>Ticker\<close> go to the system dispatcher.
  The switch has no case for \<open>Error\<close>: for such a message no dispatcher is
  selected and nothing is enqueued or counted. No dispatcher other than the
  selected one is touched, and an accepted message is appended to the queue of the
  selected one.
\<close>

theorem pushMessage_routing:
  "(t m = MessageTypePacket \<or> t m = MessageTypeShunt \<or> t m = MessageTypeShuntTicker
      \<or> t m = MessageTypeShuntAsync \<or> t m = MessageTypeShuntAsyncCallback
      \<or> t m = MessageTypeUniqueShuntAsync \<or> t m = MessageTypeUniqueShuntAsyncCallback \<longrightarrow>
      targetDispatcher srv m =
        (case conn m of
           None \<Rightarrow> systemDispatcher srv
         | Some cid \<Rightarrow>
             (case currDispatcher srv cid of
                Some d \<Rightarrow> Some d
              | None \<Rightarrow> systemDispatcher srv)))
   \<and> (t m = MessageTypeSystem \<or> t m = MessageTypeAsync \<or> t m = MessageTypeAsyncCallback
      \<or> t m = MessageTypeUniqueAsync \<or> t m = MessageTypeUniqueAsyncCallback
      \<or> t m = MessageTypeTicker \<longrightarrow>
      targetDispatcher srv m = systemDispatcher srv)
   \<and> (t m = MessageTypeError \<longrightarrow>
      targetDispatcher srv m = None \<and> fst (pushMessage m srv) = None
      \<and> heap (snd (pushMessage m srv)) = heap srv
      \<and> messageCounter (snd (pushMessage m srv)) = messageCounter srv)
   \<and> (\<forall>d'. targetDispatcher srv m \<noteq> Some d' \<longrightarrow>
         heap (snd (pushMessage m srv)) d' = heap srv d')
   \<and> (\<forall>d. targetDispatcher srv m = Some d \<and> OnMessageExecBeforeEvent srv m
          \<and> \<not> ((t m = MessageTypeUniqueAsync \<or> t m = MessageTypeUniqueShuntAsync)
                  \<and> name m \<in> uniques (heap srv d))
          \<and> statsReady srv \<and> \<not> closing (heap srv d) \<longrightarrow>
          fst (pushMessage m srv) = None
          \<and> queue (heap (snd (pushMessage m srv)) d) = queue (heap srv d) @ [m])"
proof (intro conjI)
  show "\<forall>d'. targetDispatcher srv m \<noteq> Some d' \<longrightarrow>
         heap (snd (pushMessage m srv)) d' = heap srv d'"
    by (simp add: pushMessage_other_untouched)
next
  show "\<forall>d. targetDispatcher srv m = Some d \<and> OnMessageExecBeforeEvent srv m
          \<and> \<not> ((t m = MessageTypeUniqueAsync \<or> t m = MessageTypeUniqueShuntAsync)
                  \<and> name m \<in> uniques (heap srv d))
          \<and> statsReady srv \<and> \<not> closing (heap srv d) \<longrightarrow>
          fst (pushMessage m srv) = None
          \<and> queue (heap (snd (pushMessage m srv)) d) = queue (heap srv d) @ [m]"
    using pushMessage_enqueue(1,2)[of srv m] by blast
next
  show "t m = MessageTypeError \<longrightarrow>
      targetDispatcher srv m = None \<and> fst (pushMessage m srv) = None
      \<and> heap (snd (pushMessage m srv)) = heap srv
      \<and> messageCounter (snd (pushMessage m srv)) = messageCounter srv"
    by (simp add: targetDispatcher_def pushMessage_def messagePoolRelease_def emit_def)
qed (auto simp: targetDispatcher_def getConnDispatcher_def split: option.splits)

theorem pushMessage_routing_witness:
  "targetDispatcher onA P1 = Some 1
   \<and> queue (heap (snd (pushMessage P1 onA)) 1) = [P1]
   \<and> heap (snd (pushMessage P1 onA)) 0 = heap onA 0
   \<and> targetDispatcher onA Y1 = Some 0
   \<and> targetDispatcher onA E1 = None
   \<and> heap (snd (pushMessage E1 onA)) = heap onA"
  using pushMessage_routing[of P1 onA] pushMessage_routing[of Y1 onA]
        pushMessage_routing[of E1 onA]
  by (simp add: example_message_simps onA_simps admit_def)

text \<open>
  C3 as stated fails for the \<open>Error\<close> kind: on a started server an error message
  has no target, while the system dispatcher exists, and \<open>pushMessage\<close> returns
  with the server unchanged.
\<close>

theorem pushMessage_routing_counterexample:
  "targetDispatcher started E1 \<noteq> systemDispatcher started
   \<and> pushMessage E1 started = (None, started)"
  by (simp add: targetDispatcher_def example_message_simps started_simps
        pushMessage_def admit_def)

section \<open>Shunt migration\<close>

lemma deleteMember_members:
  "members (deleteMember n c srv) n' = (if n' = n then members srv n - {c} else members srv n')"
  by (simp add: deleteMember_def members_def split: option.splits)

lemma deleteMember_fields [simp]:
  "heap (deleteMember n c srv) = heap srv"
  "dispatchers (deleteMember n c srv) = dispatchers srv"
  "currDispatcher (deleteMember n c srv) = currDispatcher srv"
  "nextAddr (deleteMember n c srv) = nextAddr srv"
  "trace (deleteMember n c srv) = trace srv"
  "systemDispatcher (deleteMember n c srv) = systemDispatcher srv"
  by (simp_all add: deleteMember_def split: option.splits)

lemma UseShunt_keeps:
  "OnMessageExecBeforeEvent (UseShunt c n s) = OnMessageExecBeforeEvent s"
  "messageStatistics (UseShunt c n s) = messageStatistics s"
  "messageStatisticsLock (UseShunt c n s) = messageStatisticsLock s"
  "systemDispatcher (UseShunt c n s) = systemDispatcher s"
  "messageCounter (UseShunt c n s) = messageCounter s"
  by (simp_all add: UseShunt_def Let_def generateDispatcher_def emit_def deleteMember_def
        dispatcherClose_def split: option.splits)

lemma statsReady_UseShunt: "statsReady (UseShunt c n s) = statsReady s"
  by (simp add: statsReady_def HasMessageStatistics_def UseShunt_keeps)

lemma UseShunt_migrate_existing:
  assumes cur: "currDispatcher srv cid = Some d1"
      and nsys: "dname (heap srv d1) \<noteq> serverSystemDispatcher"
      and other: "dname (heap srv d1) \<noteq> n2"
      and last: "members srv (dname (heap srv d1)) \<subseteq> {cid}"
      and tgt: "dispatchers srv n2 = Some d2" and ne: "d2 \<noteq> d1"
  shows "currDispatcher (UseShunt cid n2 srv) cid = Some d2"
    and "dispatchers (UseShunt cid n2 srv) n2 = Some d2"
    and "heap (UseShunt cid n2 srv) d2
           = (heap srv d2)\<lparr>queue := queue (heap srv d2) @ queue (heap srv d1)\<rparr>"
    and "heap (UseShunt cid n2 srv) d1 = (heap srv d1)\<lparr>queue := [], closing := True\<rparr>"
    and "trace (UseShunt cid n2 srv) = trace srv @ [ShuntChannelClosed (dname (heap srv d2))]"
  using assms
  by (auto simp: UseShunt_def Let_def deleteMember_members transfer_def dispatcherClose_def
        close_def emit_def)

lemma UseShunt_migrate_fresh:
  assumes cur: "currDispatcher srv cid = Some d1"
      and nsys: "dname (heap srv d1) \<noteq> serverSystemDispatcher"
      and other: "dname (heap srv d1) \<noteq> n2"
      and last: "members srv (dname (heap srv d1)) \<subseteq> {cid}"
      and tgt: "dispatchers srv n2 = None" and ne: "d1 < nextAddr srv"
  shows "currDispatcher (UseShunt cid n2 srv) cid = Some (nextAddr srv)"
    and "dispatchers (UseShunt cid n2 srv) n2 = Some (nextAddr srv)"
    and "heap (UseShunt cid n2 srv) (nextAddr srv) =
           \<lparr>dname = n2, queue = queue (heap srv d1), uniques = {}, closing = False\<rparr>"
    and "heap (UseShunt cid n2 srv) d1 = (heap srv d1)\<lparr>queue := [], closing := True\<rparr>"
    and "trace (UseShunt cid n2 srv)
           = trace srv @ [ShuntChannelCreated n2, ShuntChannelClosed n2]"
  using assms
  by (auto simp: UseShunt_def Let_def deleteMember_members transfer_def dispatcherClose_def
        close_def emit_def generateDispatcher_def deleteMember_def members_def
        split: option.splits)

lemma push_after:
  assumes "currDispatcher srv cid = Some d" "\<not> closing (heap srv d)"
      and "shuntKind (t m)" "conn m = Some cid" "OnMessageExecBeforeEvent srv m"
      and "statsReady srv"
      and "\<not> (t m = MessageTypeUniqueShuntAsync \<and> name m \<in> uniques (heap srv d))"
  shows "fst (pushMessage m srv) = None
         \<and> queue (heap (snd (pushMessage m srv)) d) = queue (heap srv d) @ [m]"
proof -
  have tg: "targetDispatcher srv m = Some d"
    using assms by (simp add: targetDispatcher_shunt)
  have nu: "\<not> ((t m = MessageTypeUniqueAsync \<or> t m = MessageTypeUniqueShuntAsync)
               \<and> name m \<in> uniques (heap srv d))"
    using assms by (auto simp: shuntKind_def)
  show ?thesis
    using pushMessage_enqueue(1,2)[OF assms(5) tg nu assms(6) assms(2)] by simp
qed

subsection \<open>The registry invariant\<close>

lemma UseShunt_stages:
  "UseShunt cid n srv =
     (let (d, srv1) = resolved n srv
      in case currDispatcher srv1 cid of
           None \<Rightarrow> joined cid n d srv1
         | Some cur \<Rightarrow>
             if dname (heap srv1 cur) = n then srv1
             else
               (let cn = dname (heap srv1 cur);
                    srv2 = deleteMember cn cid srv1
                in if cn \<noteq> serverSystemDispatcher \<and> members srv2 cn = {}
                   then joined cid n d (torn cur d srv2)
                   else joined cid n d srv2))"
  by (simp add: UseShunt_def resolved_def joined_def torn_def Let_def
        split: option.splits prod.splits)

lemma registryInv_resolved:
  assumes "registryInv srv"
  shows "registryInv (snd (resolved n srv))"
    and "dispatchers (snd (resolved n srv)) n = Some (fst (resolved n srv))"
  using assms
  by (auto simp: registryInv_def resolved_def generateDispatcher_def emit_def Let_def
        less_Suc_eq split: option.splits)

lemma registryInv_joined:
  assumes "registryInv s" "d < nextAddr s"
  shows "registryInv (joined cid n d s)"
  using assms by (auto simp: registryInv_def joined_def)

lemma registryInv_deleteMember:
  "registryInv s \<Longrightarrow> registryInv (deleteMember n c s)"
  by (simp add: registryInv_def)

lemma registryInv_torn:
  assumes "registryInv s" "dispatchers s n = Some d" "dname (heap s cur) \<noteq> n"
  shows "registryInv (torn cur d s)" and "nextAddr (torn cur d s) = nextAddr s"
  using assms
  by (auto simp: registryInv_def torn_def Let_def transfer_def emit_def dispatcherClose_def
        close_def)

lemma registryInv_started: "registryInv started"
  by (simp add: registryInv_def started_def onMessageSystemInit_def New_def
        generateDispatcher_def startMessageStatistics_def HasMessageStatistics_def)

lemma registryInv_UseShunt:
  assumes inv: "registryInv srv"
  shows "registryInv (UseShunt cid n srv)"
proof -
  obtain d s1 where r: "resolved n srv = (d, s1)" by (cases "resolved n srv")
  have i1: "registryInv s1" and dd: "dispatchers s1 n = Some d"
    using registryInv_resolved[OF inv, of n] r by simp_all
  have lt: "d < nextAddr s1" using i1 dd by (simp add: registryInv_def)
  show ?thesis
  proof (cases "currDispatcher s1 cid")
    case None
    then show ?thesis
      using r i1 lt by (simp add: UseShunt_stages registryInv_joined)
  next
    case (Some cur)
    show ?thesis
    proof (cases "dname (heap s1 cur) = n")
      case True
      then show ?thesis using r Some i1 by (simp add: UseShunt_stages)
    next
      case False
      let ?s2 = "deleteMember (dname (heap s1 cur)) cid s1"
      have i2: "registryInv ?s2" by (rule registryInv_deleteMember[OF i1])
      have d2: "dispatchers ?s2 n = Some d" using dd by simp
      have ne: "dname (heap ?s2 cur) \<noteq> n" using False by simp
      have i3: "registryInv (torn cur d ?s2)"
        and n3: "nextAddr (torn cur d ?s2) = nextAddr s1"
        using registryInv_torn[OF i2 d2 ne] by simp_all
      show ?thesis
        using r Some False i2 i3 n3 lt
        by (simp add: UseShunt_stages Let_def registryInv_joined)
    qed
  qed
qed

lemma registryInv_onA_P1: "registryInv onA_P1"
  by (simp add: registryInv_def onA_P1_simps)

subsection \<open>Order across a migration\<close>

text \<open>
  C4. When \<open>UseShunt\<close> moves a connection off a non-system shunt \<open>N1\<close> that is left
  without members, the messages still queued on the dispatcher of \<open>N1\<close> are moved,
  in order, behind those already queued on the dispatcher of \<open>N2\<close>, and the
  dispatcher of \<open>N1\<close> is left empty and closed; a message of the connection
  pushed after the migration is queued on \<open>N2\<close> behind all of them, and the worker
  of \<open>N2\<close> takes its queue from the head.
\<close>

theorem UseShunt_migration_order:
  assumes inv: "registryInv srv"
      and cur: "currDispatcher srv cid = Some d1"
      and nsys: "dname (heap srv d1) \<noteq> serverSystemDispatcher"
      and other: "dname (heap srv d1) \<noteq> n2"
      and last: "members srv (dname (heap srv d1)) \<subseteq> {cid}"
  shows "\<exists>d2. currDispatcher (UseShunt cid n2 srv) cid = Some d2 \<and> d2 \<noteq> d1
          \<and> queue (heap (UseShunt cid n2 srv) d2)
              = (case dispatchers srv n2 of None \<Rightarrow> [] | Some d \<Rightarrow> queue (heap srv d))
                @ queue (heap srv d1)
          \<and> queue (heap (UseShunt cid n2 srv) d1) = []
          \<and> closing (heap (UseShunt cid n2 srv) d1)
          \<and> (\<forall>m. shuntKind (t m) \<and> conn m = Some cid
                \<and> OnMessageExecBeforeEvent (UseShunt cid n2 srv) m
                \<and> statsReady (UseShunt cid n2 srv)
                \<and> \<not> (t m = MessageTypeUniqueShuntAsync
                        \<and> name m \<in> uniques (heap (UseShunt cid n2 srv) d2)) \<longrightarrow>
                fst (pushMessage m (UseShunt cid n2 srv)) = None
                \<and> queue (heap (snd (pushMessage m (UseShunt cid n2 srv))) d2)
                    = (case dispatchers srv n2 of None \<Rightarrow> [] | Some d \<Rightarrow> queue (heap srv d))
                      @ queue (heap srv d1) @ [m])"
proof (cases "dispatchers srv n2")
  case None
  have lt: "d1 < nextAddr srv"
    using inv cur by (simp add: registryInv_def)
  note f = UseShunt_migrate_fresh[OF cur nsys other last None lt]
  let ?s = "UseShunt cid n2 srv" and ?d = "nextAddr srv"
  have open2: "\<not> closing (heap ?s ?d)" by (simp add: f(3))
  have q: "queue (heap ?s ?d) = queue (heap srv d1)" by (simp add: f(3))
  have "\<forall>m. shuntKind (t m) \<and> conn m = Some cid \<and> OnMessageExecBeforeEvent ?s m
            \<and> statsReady ?s
            \<and> \<not> (t m = MessageTypeUniqueShuntAsync \<and> name m \<in> uniques (heap ?s ?d)) \<longrightarrow>
            fst (pushMessage m ?s) = None
            \<and> queue (heap (snd (pushMessage m ?s)) ?d) = queue (heap srv d1) @ [m]"
    using push_after[OF f(1) open2] q by simp
  then show ?thesis
    using f lt None by (intro exI[of _ ?d]) simp
next
  case (Some d2)
  have ne: "d2 \<noteq> d1"
    using inv Some other by (auto simp: registryInv_def)
  have op: "\<not> closing (heap srv d2)"
    using inv Some by (auto simp: registryInv_def)
  note f = UseShunt_migrate_existing[OF cur nsys other last Some ne]
  let ?s = "UseShunt cid n2 srv"
  have open2: "\<not> closing (heap ?s d2)" by (simp add: f(3) op)
  have q: "queue (heap ?s d2) = queue (heap srv d2) @ queue (heap srv d1)"
    by (simp add: f(3))
  have "\<forall>m. shuntKind (t m) \<and> conn m = Some cid \<and> OnMessageExecBeforeEvent ?s m
            \<and> statsReady ?s
            \<and> \<not> (t m = MessageTypeUniqueShuntAsync \<and> name m \<in> uniques (heap ?s d2)) \<longrightarrow>
            fst (pushMessage m ?s) = None
            \<and> queue (heap (snd (pushMessage m ?s)) d2)
                = queue (heap srv d2) @ queue (heap srv d1) @ [m]"
    using push_after[OF f(1) open2] q by simp
  then show ?thesis
    using f ne Some by (intro exI[of _ d2]) simp
qed

theorem UseShunt_migration_order_witness:
  "queue (heap (UseShunt ''c1'' ''B'' onA_P1) 2) = [P1]
   \<and> queue (heap (UseShunt ''c1'' ''B'' onA_P1) 1) = []
   \<and> closing (heap (UseShunt ''c1'' ''B'' onA_P1) 1)
   \<and> queue (heap (snd (pushMessage P2 (UseShunt ''c1'' ''B'' onA_P1))) 2) = [P1, P2]"
proof -
  let ?s = "UseShunt ''c1'' ''B'' onA_P1"
  have cur: "currDispatcher onA_P1 ''c1'' = Some 1" by (simp add: onA_P1_simps)
  have nsys: "dname (heap onA_P1 1) \<noteq> serverSystemDispatcher"
    by (simp add: onA_P1_simps serverSystemDispatcher_def)
  have other: "dname (heap onA_P1 1) \<noteq> ''B''" by (simp add: onA_P1_simps)
  have last: "members onA_P1 (dname (heap onA_P1 1)) \<subseteq> {''c1''}"
    by (simp add: onA_P1_simps members_def)
  have cur': "currDispatcher ?s ''c1'' = Some 2"
    using UseShunt_migrate_fresh(1)[OF cur nsys other last] by (simp add: onA_P1_simps)
  have ok: "OnMessageExecBeforeEvent ?s P2" "statsReady ?s"
       "name P2 \<notin> uniques (heap ?s 2)"
    using UseShunt_migrate_fresh(3)[OF cur nsys other last]
    by (simp_all add: onA_P1_simps UseShunt_keeps statsReady_UseShunt admit_def)
  from UseShunt_migration_order[OF registryInv_onA_P1 cur nsys other last]
  obtain d2 where d2: "currDispatcher ?s ''c1'' = Some d2"
      "queue (heap ?s d2)
         = (case dispatchers onA_P1 ''B'' of None \<Rightarrow> [] | Some d \<Rightarrow> queue (heap onA_P1 d))
           @ queue (heap onA_P1 1)"
      "queue (heap ?s 1) = []" "closing (heap ?s 1)"
      and push: "\<And>m. shuntKind (t m) \<and> conn m = Some ''c1''
                \<and> OnMessageExecBeforeEvent ?s m \<and> statsReady ?s
                \<and> \<not> (t m = MessageTypeUniqueShuntAsync \<and> name m \<in> uniques (heap ?s d2)) \<Longrightarrow>
                queue (heap (snd (pushMessage m ?s)) d2)
                    = (case dispatchers onA_P1 ''B'' of None \<Rightarrow> []
                       | Some d \<Rightarrow> queue (heap onA_P1 d))
                      @ queue (heap onA_P1 1) @ [m]"
    by blast
  have e: "d2 = 2" using d2(1) cur' by simp
  show ?thesis
    using d2(2,3,4) push[of P2] ok e
    by (simp add: onA_P1_simps example_message_simps shuntKind_def)
qed

subsection \<open>The event of a teardown\<close>

text \<open>
  C5. The claim: when \<open>UseShunt\<close> tears down the emptied previous shunt, the
  \<open>ShuntChannelClosed\<close> event names the shunt that was closed. The code at the
  input \<open>UseShunt(c1, "B")\<close> with \<open>c1\<close> alone on shunt \<open>A\<close>: shunt \<open>A\<close> is removed and
  its dispatcher closed, shunt \<open>B\<close> is open, and the event fired is
  \<open>ShuntChannelClosed "B"\<close>.
\<close>

theorem UseShunt_closed_event_names_new_shunt:
  "trace (UseShunt ''c1'' ''B'' onA)
     = [ShuntChannelCreated ''A'', ShuntChannelCreated ''B'', ShuntChannelClosed ''B'']
   \<and> \<not> HasShunt (UseShunt ''c1'' ''B'' onA) ''A''
   \<and> HasShunt (UseShunt ''c1'' ''B'' onA) ''B''
   \<and> dname (heap (UseShunt ''c1'' ''B'' onA) 1) = ''A''
   \<and> closing (heap (UseShunt ''c1'' ''B'' onA) 1)
   \<and> \<not> closing (heap (UseShunt ''c1'' ''B'' onA) 2)"
  by (simp add: UseShunt_def onA_simps Let_def generateDispatcher_def emit_def
        deleteMember_def members_def dispatcherClose_def close_def transfer_def HasShunt_def
        serverSystemDispatcher_def)

text \<open>The sibling path \<open>releaseDispatcher\<close> names the shunt it closes.\<close>

lemma releaseDispatcher_closed_event:
  "trace (releaseDispatcher (Some ''c1'') onA)
     = [ShuntChannelCreated ''A'', ShuntChannelClosed ''A'']"
  by (simp add: releaseDispatcher_def onA_simps Let_def emit_def deleteMember_def
        members_def dispatcherClose_def close_def serverSystemDispatcher_def)

section \<open>Unique asyncs\<close>

lemma emit_fields [simp]:
  "heap (emit e s) = heap s" "trace (emit e s) = trace s @ [e]"
  "messageCounter (emit e s) = messageCounter s"
  "closed (emit e s) = closed s"
  "OnMessageExecBeforeEvent (emit e s) = OnMessageExecBeforeEvent s"
  "currDispatcher (emit e s) = currDispatcher s"
  "systemDispatcher (emit e s) = systemDispatcher s"
  "messageStatistics (emit e s) = messageStatistics s"
  "messageStatisticsLock (emit e s) = messageStatisticsLock s"
  "ants (emit e s) = ants s"
  by (simp_all add: emit_def)

lemma dispatcherAntiUnique_fields [simp]:
  "heap (dispatcherAntiUnique d k s) = (heap s)(d := antiUnique k (heap s d))"
  "trace (dispatcherAntiUnique d k s) = trace s @ [AntiUnique d k]"
  "messageCounter (dispatcherAntiUnique d k s) = messageCounter s"
  "closed (dispatcherAntiUnique d k s) = closed s"
  "OnMessageExecBeforeEvent (dispatcherAntiUnique d k s) = OnMessageExecBeforeEvent s"
  "currDispatcher (dispatcherAntiUnique d k s) = currDispatcher s"
  "systemDispatcher (dispatcherAntiUnique d k s) = systemDispatcher s"
  "messageStatistics (dispatcherAntiUnique d k s) = messageStatistics s"
  "messageStatisticsLock (dispatcherAntiUnique d k s) = messageStatisticsLock s"
  "ants (dispatcherAntiUnique d k s) = ants s"
  by (simp_all add: dispatcherAntiUnique_def)

lemma callErrHandler_fields [simp]:
  "heap (snd (callErrHandler m s)) = heap s"
  "trace (snd (callErrHandler m s))
     = trace s @ (case errHandler m of None \<Rightarrow> [] | Some h \<Rightarrow> [HandlerRan m])"
  "messageCounter (snd (callErrHandler m s)) = messageCounter s"
  "closed (snd (callErrHandler m s)) = closed s"
  "OnMessageExecBeforeEvent (snd (callErrHandler m s)) = OnMessageExecBeforeEvent s"
  "currDispatcher (snd (callErrHandler m s)) = currDispatcher s"
  "systemDispatcher (snd (callErrHandler m s)) = systemDispatcher s"
  "messageStatistics (snd (callErrHandler m s)) = messageStatistics s"
  "messageStatisticsLock (snd (callErrHandler m s)) = messageStatisticsLock s"
  by (simp_all add: callErrHandler_def split: option.splits)

lemma callErrHandler_outcome:
  "fst (callErrHandler m s)
     = (case errHandler m of None \<Rightarrow> Panics NilDereference | Some h \<Rightarrow> h (err m))"
  by (simp add: callErrHandler_def split: option.splits)

lemma dispatchMessage_callback:
  assumes "t cb = MessageTypeUniqueAsyncCallback \<or> t cb = MessageTypeUniqueShuntAsyncCallback"
  shows "dispatchMessage d cb srv
           = (None, deferred d cb (fst (callErrHandler cb srv)) (snd (callErrHandler cb srv)))"
  using assms
  by (auto simp: dispatchMessage_def isAsync_def execMessage_def split: prod.splits)

lemma deferred_unique_callback:
  assumes "t cb = MessageTypeUniqueAsyncCallback \<or> t cb = MessageTypeUniqueShuntAsyncCallback"
  shows "heap (deferred d cb r s) = (heap s)(d := antiUnique (name cb) (heap s d))"
    and "trace (deferred d cb r s) =
           trace s @ (case r of Panics p \<Rightarrow> [MessageError cb p] | Returns _ \<Rightarrow> [])
           @ [AntiUnique d (name cb)] @ (if closed s = 0 then [PoolRelease cb] else [])"
    and "messageCounter (deferred d cb r s) = messageCounter s - 1"
    and "OnMessageExecBeforeEvent (deferred d cb r s) = OnMessageExecBeforeEvent s"
    and "currDispatcher (deferred d cb r s) = currDispatcher s"
    and "systemDispatcher (deferred d cb r s) = systemDispatcher s"
    and "messageStatistics (deferred d cb r s) = messageStatistics s"
    and "messageStatisticsLock (deferred d cb r s) = messageStatisticsLock s"
  using assms
  by (cases r; simp add: deferred_def Let_def messagePoolRelease_def)+

lemma dispatchMessage_unique_callback:
  assumes "t cb = MessageTypeUniqueAsyncCallback \<or> t cb = MessageTypeUniqueShuntAsyncCallback"
  shows "fst (dispatchMessage d cb srv) = None"
    and "heap (snd (dispatchMessage d cb srv)) = (heap srv)(d := antiUnique (name cb) (heap srv d))"
    and "trace (snd (dispatchMessage d cb srv)) =
           trace srv
           @ (case errHandler cb of
                None \<Rightarrow> [MessageError cb NilDereference]
              | Some h \<Rightarrow> HandlerRan cb #
                  (case h (err cb) of Panics p \<Rightarrow> [MessageError cb p] | Returns _ \<Rightarrow> []))
           @ [AntiUnique d (name cb)]
           @ (if closed srv = 0 then [PoolRelease cb] else [])"
    and "messageCounter (snd (dispatchMessage d cb srv)) = messageCounter srv - 1"
    and "OnMessageExecBeforeEvent (snd (dispatchMessage d cb srv)) = OnMessageExecBeforeEvent srv"
    and "statsReady (snd (dispatchMessage d cb srv)) = statsReady srv"
    and "currDispatcher (snd (dispatchMessage d cb srv)) = currDispatcher srv"
    and "systemDispatcher (snd (dispatchMessage d cb srv)) = systemDispatcher srv"
  by (simp_all add: dispatchMessage_callback[OF assms] deferred_unique_callback[OF assms]
        callErrHandler_outcome statsReady_def HasMessageStatistics_def split: option.splits)

lemma statsReady_cong:
  "messageStatistics s' = messageStatistics s \<Longrightarrow> messageStatisticsLock s' = messageStatisticsLock s
     \<Longrightarrow> statsReady s' = statsReady s"
  by (simp add: statsReady_def HasMessageStatistics_def)

lemma targetDispatcher_cong:
  "currDispatcher s' = currDispatcher s \<Longrightarrow> systemDispatcher s' = systemDispatcher s
     \<Longrightarrow> targetDispatcher s' m = targetDispatcher s m"
proof -
  assume a: "currDispatcher s' = currDispatcher s" "systemDispatcher s' = systemDispatcher s"
  have "getConnDispatcher s' c = getConnDispatcher s c" for c
    by (cases c) (simp_all add: getConnDispatcher_def a split: option.splits)
  then show ?thesis
    by (cases "t m") (simp_all add: targetDispatcher_def a)
qed

lemma unique_message_simps:
  "t U1 = MessageTypeUniqueAsync" "name U1 = ''K''" "conn U1 = None"
  "exceptionHandler U1 = Some (Returns None)" "errHandler U1 = Some finish"
  "t N1 = MessageTypeUniqueShuntAsync" "name N1 = ''K''" "conn N1 = None"
  "exceptionHandler N1 = Some (Returns None)" "errHandler N1 = Some finish"
  "t K1 = MessageTypeUniqueAsyncCallback" "name K1 = ''K''" "conn K1 = None"
  "errHandler K1 = Some finish" "err K1 = None"
  by (simp_all add: U1_def N1_def K1_def castToUniqueAsyncMessage_def
        castToUniqueShuntAsyncMessage_def castToUniqueAsyncCallbackMessage_def emptyMessage_def)

lemma pushMessage_fields:
  "OnMessageExecBeforeEvent (snd (pushMessage m s)) = OnMessageExecBeforeEvent s"
  "currDispatcher (snd (pushMessage m s)) = currDispatcher s"
  "systemDispatcher (snd (pushMessage m s)) = systemDispatcher s"
  "messageStatisticsLock (snd (pushMessage m s)) = messageStatisticsLock s"
  "closed (snd (pushMessage m s)) = closed s"
  "ants (snd (pushMessage m s)) = ants s"
  by (auto simp: pushMessage_def messagePoolRelease_def emit_def dispatcherUnique_def
        dispatcherPut_def hitMessageStatistics_def Let_def
        split: option.splits prod.splits list.splits)

lemma inflight_simps:
  "heap inflight 0 = \<lparr>dname = ''system'', queue = [U1], uniques = {''K''}, closing = False\<rparr>"
  "targetDispatcher inflight U1 = Some 0"
  "OnMessageExecBeforeEvent inflight = admit"
  "statsReady inflight"
  "trace inflight = []"
  "messageCounter inflight = 1"
  by (simp_all add: inflight_def pushMessage_def started_simps admit_def targetDispatcher_def
       unique_message_simps dispatcherUnique_def unique_def hitMessageStatistics_def
       dispatcherPut_def put_def Let_def statsReady_def HasMessageStatistics_def
       started_def onMessageSystemInit_def New_def generateDispatcher_def
       startMessageStatistics_def serverSystemDispatcher_def)

text \<open>
  What the code keeps of unique coalescing. A unique async (\<open>UniqueAsync\<close> or
  \<open>UniqueShuntAsync\<close>) pushed while its key is in flight on its target dispatcher
  is dropped: nothing is enqueued or counted and the record goes back to the pool.
  If a unique callback message for the key is executed on that dispatcher, the
  key is free afterwards, and the next unique async with the key (admitted by the
  exec-before hook, on a dispatcher still open) is enqueued. Whether such a
  callback message is ever produced is another matter, settled below.
\<close>

theorem unique_coalescing:
  assumes kind: "t m = MessageTypeUniqueAsync \<or> t m = MessageTypeUniqueShuntAsync"
      and tgt: "targetDispatcher srv m = Some d"
  shows "(name m \<in> uniques (heap srv d) \<longrightarrow>
            pushMessage m srv = (None, messagePoolRelease m srv)
            \<and> heap (messagePoolRelease m srv) = heap srv
            \<and> messageCounter (messagePoolRelease m srv) = messageCounter srv
            \<and> trace (messagePoolRelease m srv) = trace srv @ [PoolRelease m])
       \<and> ((t cb = MessageTypeUniqueAsyncCallback \<or> t cb = MessageTypeUniqueShuntAsyncCallback)
            \<and> name cb = name m \<and> OnMessageExecBeforeEvent srv m \<and> statsReady srv
            \<and> \<not> closing (heap srv d) \<longrightarrow>
            name m \<notin> uniques (heap (snd (dispatchMessage d cb srv)) d)
            \<and> fst (pushMessage m (snd (dispatchMessage d cb srv))) = None
            \<and> queue (heap (snd (pushMessage m (snd (dispatchMessage d cb srv)))) d)
                = queue (heap srv d) @ [m])"
proof (intro conjI impI)
  assume "name m \<in> uniques (heap srv d)"
  then show "pushMessage m srv = (None, messagePoolRelease m srv)"
    using kind tgt by (rule pushMessage_duplicate[rotated 2])
next
  show "heap (messagePoolRelease m srv) = heap srv"
    by (simp add: messagePoolRelease_def)
  show "messageCounter (messagePoolRelease m srv) = messageCounter srv"
    by (simp add: messagePoolRelease_def)
  show "trace (messagePoolRelease m srv) = trace srv @ [PoolRelease m]"
    by (simp add: messagePoolRelease_def)
next
  assume a: "(t cb = MessageTypeUniqueAsyncCallback \<or> t cb = MessageTypeUniqueShuntAsyncCallback)
            \<and> name cb = name m \<and> OnMessageExecBeforeEvent srv m \<and> statsReady srv
            \<and> \<not> closing (heap srv d)"
  let ?s = "snd (dispatchMessage d cb srv)"
  from a have cbk: "t cb = MessageTypeUniqueAsyncCallback \<or> t cb = MessageTypeUniqueShuntAsyncCallback"
    by simp
  note f = dispatchMessage_unique_callback[OF cbk, of d srv]
  have h: "heap ?s d = antiUnique (name m) (heap srv d)"
    using a by (simp add: f(2))
  show free: "name m \<notin> uniques (heap ?s d)"
    by (simp add: h antiUnique_def)
  have tg: "targetDispatcher ?s m = Some d"
    using tgt targetDispatcher_cong[OF f(7) f(8)] by simp
  have adm: "OnMessageExecBeforeEvent ?s m" using a by (simp add: f(5))
  have rdy: "statsReady ?s" using a by (simp add: f(6))
  have opn: "\<not> closing (heap ?s d)" using a by (simp add: h antiUnique_def)
  have nd: "\<not> ((t m = MessageTypeUniqueAsync \<or> t m = MessageTypeUniqueShuntAsync)
               \<and> name m \<in> uniques (heap ?s d))"
    using free by simp
  show "fst (pushMessage m ?s) = None"
    by (rule pushMessage_enqueue(1)[OF adm tg nd rdy opn])
  show "queue (heap (snd (pushMessage m ?s)) d) = queue (heap srv d) @ [m]"
    using pushMessage_enqueue(2)[OF adm tg nd rdy opn] by (simp add: h antiUnique_def)
qed

lemma work_head:
  "queue (heap srv d) = m # ms \<Longrightarrow>
   work d srv = dispatchMessage d m (srv\<lparr>heap := (heap srv)(d := (heap srv d)\<lparr>queue := ms\<rparr>)\<rparr>)"
  by (simp add: work_def)

lemmas eval_defs =
  work_def dispatchMessage_def isAsync_def asyncTask_def pushCallback_def
  PushUniqueAsyncCallbackMessage_def PushAsyncCallbackMessage_def
  PushUniqueShuntAsyncCallbackMessage_def PushShuntAsyncCallbackMessage_def
  pushMessage_def targetDispatcher_def getConnDispatcher_def dispatcherUnique_def unique_def
  hitMessageStatistics_def dispatcherPut_def put_def messagePoolRelease_def emit_def
  dispatcherAntiUnique_def antiUnique_def execMessage_def callErrHandler_def callOrdinary_def
  deferred_def Let_def statsReady_def HasMessageStatistics_def
  castToUniqueAsyncCallbackMessage_def castToAsyncCallbackMessage_def
  castToUniqueShuntAsyncCallbackMessage_def castToShuntAsyncCallbackMessage_def emptyMessage_def
  started_def onMessageSystemInit_def New_def generateDispatcher_def
  startMessageStatistics_def serverSystemDispatcher_def admit_def finish_def

lemma pending_simps:
  "heap pending 0 = \<lparr>dname = ''system'', queue = [K1], uniques = {''K''}, closing = False\<rparr>"
  "targetDispatcher pending U1 = Some 0"
  "OnMessageExecBeforeEvent pending = admit"
  "statsReady pending"
  "trace pending = [HandlerRan U1, PoolRelease U1]"
  "messageCounter pending = 1"
  "closed pending = 0"
  by (simp_all add: pending_def inflight_def unique_message_simps K1_def eval_defs)

lemma popped_simps:
  "heap popped 0 = \<lparr>dname = ''system'', queue = [], uniques = {''K''}, closing = False\<rparr>"
  "targetDispatcher popped U1 = Some 0"
  "OnMessageExecBeforeEvent popped = admit"
  "statsReady popped"
  by (simp_all add: popped_def pending_simps targetDispatcher_def getConnDispatcher_def
      unique_message_simps statsReady_def HasMessageStatistics_def pending_def inflight_def eval_defs)

lemma work_pending: "work 0 pending = dispatchMessage 0 K1 popped"
  by (simp add: work_head[of pending 0 K1 "[]"] pending_simps popped_def)

theorem unique_coalescing_witness:
  "pushMessage U1 inflight = (None, messagePoolRelease U1 inflight)
   \<and> pushMessage U1 pending = (None, messagePoolRelease U1 pending)
   \<and> queue (heap (messagePoolRelease U1 pending) 0) = [K1]
   \<and> ''K'' \<notin> uniques (heap (snd (work 0 pending)) 0)
   \<and> queue (heap (snd (pushMessage U1 (snd (work 0 pending)))) 0) = [U1]"
  using unique_coalescing[of U1 inflight 0 K1] unique_coalescing[of U1 pending 0 K1]
        unique_coalescing[of U1 popped 0 K1]
  by (simp add: unique_message_simps inflight_simps pending_simps popped_simps work_pending
        admit_def)

lemma leak1_simps:
  "heap leak1 0 = \<lparr>dname = ''system'', queue = [N1], uniques = {''K''}, closing = False\<rparr>"
  "messageCounter leak1 = 1"
  by (simp_all add: leak1_def unique_message_simps eval_defs)

lemma leak2_simps:
  "heap leak2 0 = \<lparr>dname = ''system'',
       queue = [castToAsyncCallbackMessage None (Some finish) emptyMessage],
       uniques = {''K''}, closing = False\<rparr>"
  "messageCounter leak2 = 1"
  "trace leak2 = [HandlerRan N1, PoolRelease N1]"
  by (simp_all add: leak2_def leak1_def unique_message_simps eval_defs)

text \<open>
  C2. The claim: every successful \<open>unique\<close> is matched by exactly one \<open>antiUnique\<close>,
  and the in-flight set empties once the input is quiescent. The first half of
  the claim holds (\<open>dispatchMessage_unique_callback\<close>: one \<open>antiUnique\<close>, after the
  callback, panic or not). The code at the input
  \<open>PushUniqueShuntAsyncMessage(nil, "K", caller, callback)\<close>: the pool task finds
  \<open>msg.conn == nil\<close> with a kind other than \<open>UniqueAsync\<close> and pushes a plain
  \<open>AsyncCallback\<close>; after the callback ran the queue is empty and the counter is
  zero, \<open>antiUnique\<close> was never called, \<open>K\<close> is still in flight, and the next unique
  async with that key is dropped.
\<close>

theorem unique_key_leaked_nil_conn:
  "queue (heap leak3 0) = []
   \<and> uniques (heap leak3 0) = {''K''}
   \<and> messageCounter leak3 = 0
   \<and> AntiUnique 0 ''K'' \<notin> set (trace leak3)
   \<and> pushMessage N1 leak3 = (None, messagePoolRelease N1 leak3)"
  by (simp add: leak3_def leak2_def leak1_def unique_message_simps eval_defs)

text \<open>
  C1. The claim: a unique async pushed while its key is in flight is dropped and
  its record returned to the pool, and after the final callback for the key has
  executed, the next unique async with the key is accepted and enqueued. The
  first half holds (\<open>unique_coalescing\<close>). The code at the input
  \<open>PushUniqueShuntAsyncMessage(nil, "K", caller, callback)\<close>, once the caller and
  the callback have both run: the system dispatcher is open and its queue empty,
  the hook admits, statistics are off, and still the next unique async
  with key \<open>K\<close>, of either unique kind, is returned to the pool and not enqueued.
\<close>

theorem unique_async_dropped_after_callback_ran:
  "trace leak3 = [HandlerRan N1, PoolRelease N1,
                  HandlerRan (castToAsyncCallbackMessage None (Some finish) emptyMessage),
                  PoolRelease (castToAsyncCallbackMessage None (Some finish) emptyMessage)]
   \<and> queue (heap leak3 0) = []
   \<and> \<not> closing (heap leak3 0)
   \<and> OnMessageExecBeforeEvent leak3 U1 \<and> OnMessageExecBeforeEvent leak3 N1
   \<and> \<not> HasMessageStatistics leak3
   \<and> targetDispatcher leak3 U1 = Some 0 \<and> targetDispatcher leak3 N1 = Some 0
   \<and> pushMessage U1 leak3 = (None, messagePoolRelease U1 leak3)
   \<and> queue (heap (snd (pushMessage U1 leak3)) 0) = []
   \<and> queue (heap (snd (pushMessage N1 leak3)) 0) = []"
  by (simp add: leak3_def leak2_def leak1_def unique_message_simps eval_defs)

section \<open>Shutdown\<close>

lemma waitDrain_Some:
  assumes "waitDrain obs i = Some k"
  shows "i \<le> k \<and> obs k \<le> 0 \<and> (\<forall>j. i \<le> j \<and> j < k \<longrightarrow> 0 < obs j)"
proof (rule waitDrain.raw_induct[OF _ assms])
  fix wd :: "(nat \<Rightarrow> int) \<Rightarrow> nat \<Rightarrow> nat option" and obs i k
  assume IH: "\<And>o' i' k'. wd o' i' = Some k' \<Longrightarrow>
                 i' \<le> k' \<and> o' k' \<le> 0 \<and> (\<forall>j. i' \<le> j \<and> j < k' \<longrightarrow> 0 < o' j)"
     and eq: "(if 0 < obs i then wd obs (Suc i) else Some i) = Some k"
  show "i \<le> k \<and> obs k \<le> 0 \<and> (\<forall>j. i \<le> j \<and> j < k \<longrightarrow> 0 < obs j)"
  proof (cases "0 < obs i")
    case True
    with eq have "wd obs (Suc i) = Some k" by simp
    from IH[OF this] have a: "Suc i \<le> k" "obs k \<le> 0"
        and b: "\<And>j. Suc i \<le> j \<Longrightarrow> j < k \<Longrightarrow> 0 < obs j"
      by simp_all
    have "0 < obs j" if "i \<le> j" "j < k" for j
    proof (cases "j = i")
      case True
      then show ?thesis using \<open>0 < obs i\<close> by simp
    next
      case False
      with that have "Suc i \<le> j" by simp
      then show ?thesis using that b by simp
    qed
    with a show ?thesis by simp
  next
    case False
    with eq show ?thesis by simp
  qed
qed

lemma waitDrain_returns:
  "obs k \<le> 0 \<Longrightarrow> i \<le> k \<Longrightarrow> waitDrain obs i \<noteq> None"
proof (induction "k - i" arbitrary: i)
  case 0
  then have "i = k" by simp
  with 0 show ?case by (subst waitDrain.simps) simp
next
  case (Suc n)
  then have "n = k - Suc i" "Suc i \<le> k" by simp_all
  with Suc have "waitDrain obs (Suc i) \<noteq> None" by blast
  then show ?case by (subst waitDrain.simps) simp
qed

lemma waitDrain_never:
  "\<forall>j. 0 < obs j \<Longrightarrow> waitDrain obs i = None"
proof (cases "waitDrain obs i")
  case (Some k)
  from waitDrain_Some[OF Some] have "obs k \<le> 0" by simp
  moreover assume "\<forall>j. 0 < obs j"
  ultimately show ?thesis by (simp add: not_less[symmetric])
qed simp

lemma steady_refl: "steady s s"
  by (simp add: steady_def)

lemma steady_trans [trans]: "steady a b \<Longrightarrow> steady b c \<Longrightarrow> steady a c"
  by (auto simp: steady_def)

lemma steady_emit:
  "ev \<noteq> LogWaiting \<Longrightarrow> (\<forall>n. ev \<noteq> Sleep n) \<Longrightarrow> steady s (emit ev s)"
  by (auto simp: steady_def emit_def)

lemma steady_provided:
  "(\<And>s. steady s (f s)) \<Longrightarrow> steady s (provided b f s)"
  by (simp add: provided_def steady_refl)

lemma steady_update:
  "steady s (s\<lparr>ants := b\<rparr>)" "steady s (s\<lparr>dispatchers := m\<rparr>)" "steady s (dispatcherClose d s)"
  by (simp_all add: steady_def dispatcherClose_def)

lemma steady_closeAll: "steady s (closeAll ns s)"
proof (induction ns arbitrary: s)
  case Nil
  show ?case by (simp add: steady_refl)
next
  case (Cons n ns)
  show ?case
  proof (cases "dispatchers s n")
    case None
    then show ?thesis using Cons by simp
  next
    case (Some d)
    let ?s1 = "emit (ShuntChannelClosed (dname (heap s d))) s"
    let ?s2 = "dispatcherClose d ?s1"
    let ?s3 = "?s2\<lparr>dispatchers := (dispatchers ?s2)(n := None)\<rparr>"
    have "steady s ?s1" by (simp add: steady_emit)
    also have "steady ?s1 ?s2" by (rule steady_update)
    also have "steady ?s2 ?s3" by (rule steady_update)
    also have "steady ?s3 (closeAll ns ?s3)" by (rule Cons)
    finally show ?thesis using Some by (simp add: Let_def)
  qed
qed

lemma steady_shutdownDeferred: "steady s (shutdownDeferred e s)"
  by (simp add: shutdownDeferred_def steady_provided steady_emit)

lemma steady_teardown: "steady s (snd (teardown e names s))"
proof -
  let ?s1 = "provided (\<not> multiple s) (emit StopEvent) s"
  let ?s2 = "emit ContextCancel ?s1"
  let ?s3 = "provided (gServer ?s2) (emit GnetStop) ?s2"
  let ?s4 = "provided (tickerPool ?s3) (emit TickerPoolRelease) ?s3"
  let ?s5 = "provided (ticker ?s4) (emit TickerRelease) ?s4"
  let ?s6 = "provided (ants ?s5) (\<lambda>s. (emit AntsRelease s)\<lparr>ants := False\<rparr>) ?s5"
  let ?s7 = "closeAll names ?s6"
  let ?s8 = "provided (grpcServer ?s7) (emit GrpcGracefulStop) ?s7"
  let ?s9 = "provided (httpServer ?s8) (emit (HttpShutdown (3 * second))) ?s8"
  have "steady s ?s1" by (simp add: steady_provided steady_emit)
  also have "steady ?s1 ?s2" by (simp add: steady_emit)
  also have "steady ?s2 ?s3" by (simp add: steady_provided steady_emit)
  also have "steady ?s3 ?s4" by (simp add: steady_provided steady_emit)
  also have "steady ?s4 ?s5" by (simp add: steady_provided steady_emit)
  also have "steady ?s5 ?s6"
    by (rule steady_provided) (rule steady_trans[OF steady_emit steady_update(1)], simp_all)
  also have "steady ?s6 ?s7" by (rule steady_closeAll)
  also have "steady ?s7 ?s8" by (simp add: steady_provided steady_emit)
  also have "steady ?s8 ?s9" by (simp add: steady_provided steady_emit)
  finally have s9: "steady s ?s9" .
  have fin: "steady ?s9 (snd (teardown e names s))"
  proof (cases e)
    case None
    have "steady ?s9 (emit LogShutdownNormal ?s9)" by (simp add: steady_emit)
    also have "steady \<dots> (emit CloseChannelSignal (emit LogShutdownNormal ?s9))"
      by (simp add: steady_emit)
    also have "steady \<dots> (shutdownDeferred e (emit CloseChannelSignal (emit LogShutdownNormal ?s9)))"
      by (rule steady_shutdownDeferred)
    finally show ?thesis using None by (simp add: teardown_def Let_def)
  next
    case (Some x)
    show ?thesis
    proof (cases "multiple ?s9")
      case True
      have "steady ?s9 (emit (RegExitEvent x) ?s9)" by (simp add: steady_emit)
      also have "steady \<dots> (emit CloseChannelSignal (emit (RegExitEvent x) ?s9))"
        by (simp add: steady_emit)
      also have "steady \<dots> (shutdownDeferred e (emit CloseChannelSignal (emit (RegExitEvent x) ?s9)))"
        by (rule steady_shutdownDeferred)
      finally show ?thesis using Some True by (simp add: teardown_def Let_def)
    next
      case False
      have "steady ?s9 (emit (LogPanic e) ?s9)" by (simp add: steady_emit)
      also have "steady \<dots> (shutdownDeferred e (emit (LogPanic e) ?s9))"
        by (rule steady_shutdownDeferred)
      finally show ?thesis using Some False by (simp add: teardown_def Let_def)
    qed
  qed
  from s9 fin show ?thesis by (rule steady_trans)
qed

lemma waited_fields:
  "closed (waited k obs s) = closed s"
  "messageCounter (waited k obs s) = obs k"
  "trace (waited k obs s) = trace s @ concat (replicate k [LogWaiting, Sleep second])"
  by (simp_all add: waited_def)

lemma logError_fields:
  "closed (logError e s) = closed s"
  "trace (logError e s) = trace s @ (case e of None \<Rightarrow> [] | Some x \<Rightarrow> [LogShutdownError x])"
  by (simp_all add: logError_def emit_def split: option.splits)

lemma shutdown_closed: "closed srv \<noteq> 0 \<Longrightarrow> shutdown e obs names srv = Some (None, srv)"
  by (simp add: shutdown_def)

lemma shutdown_first:
  assumes c: "closed srv = 0" and r: "shutdown e obs names srv = Some r"
  shows "\<exists>k tl. (\<forall>i<k. 0 < obs i) \<and> obs k \<le> 0 \<and> ((\<forall>i. 0 \<le> obs i) \<longrightarrow> obs k = 0)
           \<and> r = teardown e names (waited k obs (logError e (srv\<lparr>closed := 1\<rparr>)))
           \<and> messageCounter (snd r) = obs k
           \<and> closed (snd r) = 1
           \<and> trace (snd r) = trace srv
                @ (case e of None \<Rightarrow> [] | Some x \<Rightarrow> [LogShutdownError x])
                @ concat (replicate k [LogWaiting, Sleep second]) @ tl
           \<and> LogWaiting \<notin> set tl \<and> (\<forall>n. Sleep n \<notin> set tl)"
proof -
  from c r obtain k where k: "waitDrain obs 0 = Some k"
    and req: "r = teardown e names (waited k obs (logError e (srv\<lparr>closed := 1\<rparr>)))"
    by (auto simp: shutdown_def split: option.splits)
  let ?w = "waited k obs (logError e (srv\<lparr>closed := 1\<rparr>))"
  from waitDrain_Some[OF k] have pos: "\<forall>i<k. 0 < obs i" and le: "obs k \<le> 0" by simp_all
  have z: "(\<forall>i. 0 \<le> obs i) \<longrightarrow> obs k = 0" using le by (auto simp: antisym)
  from steady_teardown[of ?w e names] obtain tl where
      t1: "closed (snd r) = closed ?w" and t2: "messageCounter (snd r) = messageCounter ?w"
      and t3: "trace (snd r) = trace ?w @ tl" and t4: "LogWaiting \<notin> set tl" "\<forall>n. Sleep n \<notin> set tl"
    unfolding steady_def req by blast
  have "closed (snd r) = 1" using t1 by (simp add: waited_fields logError_fields)
  moreover have "messageCounter (snd r) = obs k" using t2 by (simp add: waited_fields)
  moreover have "trace (snd r) = trace srv
                @ (case e of None \<Rightarrow> [] | Some x \<Rightarrow> [LogShutdownError x])
                @ concat (replicate k [LogWaiting, Sleep second]) @ tl"
    using t3 by (simp add: waited_fields logError_fields)
  ultimately show ?thesis using pos le z req t4 by blast
qed

text \<open>
  C6. \<open>shutdown\<close> is idempotent through the compare-and-swap on \<open>closed\<close>: a call
  that finds the flag set returns at once and leaves the server as it is, and so
  does every call after a first one has returned. A first call sets the flag and
  polls the message counter, sleeping one second after each read that finds it
  positive; teardown starts from the first read that finds it drained, so the
  counter (which counts the messages in flight and is never negative) is zero
  then. The call returns if some read finds the counter drained, and never begins
  teardown nor returns otherwise.
\<close>

theorem shutdown_idempotent_drained:
  "(closed srv \<noteq> 0 \<longrightarrow> shutdown e obs names srv = Some (None, srv))
   \<and> (closed srv = 0 \<longrightarrow>
        (\<forall>r. shutdown e obs names srv = Some r \<longrightarrow>
           (\<exists>k tl. (\<forall>i<k. 0 < obs i) \<and> obs k \<le> 0 \<and> ((\<forall>i. 0 \<le> obs i) \<longrightarrow> obs k = 0)
              \<and> r = teardown e names (waited k obs (logError e (srv\<lparr>closed := 1\<rparr>)))
              \<and> messageCounter (snd r) = obs k
              \<and> closed (snd r) = 1
              \<and> trace (snd r) = trace srv
                   @ (case e of None \<Rightarrow> [] | Some x \<Rightarrow> [LogShutdownError x])
                   @ concat (replicate k [LogWaiting, Sleep second]) @ tl
              \<and> LogWaiting \<notin> set tl \<and> (\<forall>n. Sleep n \<notin> set tl))
           \<and> shutdown e' obs' names' (snd r) = Some (None, snd r))
        \<and> ((\<exists>k. obs k \<le> 0) \<longrightarrow> shutdown e obs names srv \<noteq> None)
        \<and> ((\<forall>i. 0 < obs i) \<longrightarrow> shutdown e obs names srv = None))"
proof (intro conjI impI allI)
  assume "closed srv \<noteq> 0"
  then show "shutdown e obs names srv = Some (None, srv)" by (rule shutdown_closed)
next
  fix r assume c: "closed srv = 0" and r: "shutdown e obs names srv = Some r"
  from shutdown_first[OF c r]
  show "\<exists>k tl. (\<forall>i<k. 0 < obs i) \<and> obs k \<le> 0 \<and> ((\<forall>i. 0 \<le> obs i) \<longrightarrow> obs k = 0)
              \<and> r = teardown e names (waited k obs (logError e (srv\<lparr>closed := 1\<rparr>)))
              \<and> messageCounter (snd r) = obs k
              \<and> closed (snd r) = 1
              \<and> trace (snd r) = trace srv
                   @ (case e of None \<Rightarrow> [] | Some x \<Rightarrow> [LogShutdownError x])
                   @ concat (replicate k [LogWaiting, Sleep second]) @ tl
              \<and> LogWaiting \<notin> set tl \<and> (\<forall>n. Sleep n \<notin> set tl)" .
  from shutdown_first[OF c r] have "closed (snd r) = 1" by blast
  then show "shutdown e' obs' names' (snd r) = Some (None, snd r)"
    by (simp add: shutdown_closed)
next
  assume c: "closed srv = 0" and "\<exists>k. obs k \<le> 0"
  then obtain k where "obs k \<le> 0" by blast
  from waitDrain_returns[of obs k 0] this c
  show "shutdown e obs names srv \<noteq> None"
    by (auto simp: shutdown_def split: option.splits)
next
  assume c: "closed srv = 0" and "\<forall>i. 0 < obs i"
  from waitDrain_never[OF this(2), of 0] c
  show "shutdown e obs names srv = None" by (simp add: shutdown_def)
qed

lemma onA_closed: "closed onA = 0"
  by (simp add: onA_def UseShunt_def generateDispatcher_def emit_def
        members_def Let_def started_def onMessageSystemInit_def New_def startMessageStatistics_def
        HasMessageStatistics_def serverSystemDispatcher_def)

theorem shutdown_idempotent_drained_witness:
  "(case shutdown None draining [''A''] onA of
      None \<Rightarrow> False
    | Some r \<Rightarrow> closed (snd r) = 1 \<and> messageCounter (snd r) = 0
               \<and> shutdown (Some ''again'') busy [] (snd r) = Some (None, snd r))
   \<and> shutdown None busy [''A''] onA = None"
proof -
  note t = shutdown_idempotent_drained[of onA None draining "[''A'']" "Some ''again''" busy "[]"]
  have dr: "\<exists>k. draining k \<le> 0" by (rule exI[of _ 2]) (simp add: draining_def)
  have nn: "\<forall>i. 0 \<le> draining i" by (simp add: draining_def)
  from t onA_closed dr obtain r where r: "shutdown None draining [''A''] onA = Some r"
    by auto
  from t onA_closed r nn have "closed (snd r) = 1" "messageCounter (snd r) = 0"
      "shutdown (Some ''again'') busy [] (snd r) = Some (None, snd r)"
    by auto
  moreover have "shutdown None busy [''A''] onA = None"
    using shutdown_idempotent_drained[of onA None busy "[''A'']"] onA_closed
    by (simp add: busy_def)
  ultimately show ?thesis using r by simp
qed

text \<open>The whole course of a shutdown on the example server.\<close>

lemma shutdown_example_trace:
  "map_option (trace \<circ> snd) (shutdown None draining [''A''] onA)
     = Some [ShuntChannelCreated ''A'', LogWaiting, Sleep second, LogWaiting, Sleep second,
             StopEvent, ContextCancel, AntsRelease, ShuntChannelClosed ''A'',
             LogShutdownNormal, CloseChannelSignal]"
  by (simp add: shutdown_def waitDrain.simps draining_def onA_closed teardown_def waited_def
        logError_def provided_def shutdownDeferred_def emit_def dispatcherClose_def close_def Let_def
        onA_def UseShunt_def generateDispatcher_def members_def started_def
        onMessageSystemInit_def New_def startMessageStatistics_def HasMessageStatistics_def
        serverSystemDispatcher_def numeral_2_eq_2)

section \<open>Error messages in the earlier variant\<close>

lemma selectDispatcher_sm_Error:
  "t m = MessageTypeError \<Longrightarrow>
   selectDispatcher_sm m srv = Inr (Some (useDispatcher serverSystemDispatcher srv))"
  by (simp add: selectDispatcher_sm_def Let_def)

lemma pushMessage_sm_Error:
  assumes "t m = MessageTypeError" "\<not> messagePoolClosed srv" "OnMessageExecBeforeEvent_sm srv m"
  shows "pushMessage_sm m srv =
           (let ((d, created), srv1) = useDispatcher serverSystemDispatcher srv
            in (None, srv1\<lparr>messageCounter_sm := messageCounter_sm srv1 + 1,
                           heap_sm := (heap_sm srv1)(d := put m (heap_sm srv1 d))\<rparr>))"
  using assms
  by (simp add: pushMessage_sm_def selectDispatcher_sm_Error split: prod.splits)

lemma shutdownBegin_fields:
  "isShutdown (shutdownBegin e srv)"
  "trace_sm (shutdownBegin e srv)
     = trace_sm srv @ (case e of None \<Rightarrow> [] | Some x \<Rightarrow> [LogShutdownError x])"
  by (simp_all add: shutdownBegin_def emit_sm_def split: option.splits)

text \<open>
  C7. In the variant that has the \<open>Error\<close> kind, an error message is put on the
  dispatcher registered as \<open>system\<close> (created on first use), and is dispatched by
  its action: with \<open>MessageErrorActionNone\<close> the carried error is logged by
  \<open>log.Panic\<close>, which panics (the deferred recovery of \<open>dispatchMessage\<close> then logs
  the panic); with \<open>MessageErrorActionShutdown\<close> the server's \<open>shutdown\<close> is called
  with the carried error: it logs that error, sets \<open>isShutdown\<close>, and goes on to
  wait for the counter and to tear down.
\<close>

theorem error_message_sm:
  assumes "t m = MessageTypeError"
  shows "(\<not> messagePoolClosed srv \<and> OnMessageExecBeforeEvent_sm srv m \<longrightarrow>
            fst (pushMessage_sm m srv) = None
            \<and> (\<exists>d. dispatchers_sm (snd (pushMessage_sm m srv)) serverSystemDispatcher = Some d
                  \<and> (case dispatchers_sm srv serverSystemDispatcher of
                        Some d0 \<Rightarrow> d = d0
                          \<and> heap_sm (snd (pushMessage_sm m srv)) d = put m (heap_sm srv d0)
                      | None \<Rightarrow> queue (heap_sm (snd (pushMessage_sm m srv)) d) = [m])
                  \<and> (\<forall>d'. d' \<noteq> d \<longrightarrow> heap_sm (snd (pushMessage_sm m srv)) d' = heap_sm srv d')))
       \<and> (errAction m = MessageErrorActionNone \<longrightarrow>
            dispatchMessage_sm m obs names srv
              = Some (None, recovered_sm m (Panics (PanicValue ''Server'')) (emit_sm (LogPanic (err m)) srv))
            \<and> (\<forall>s. dispatchMessage_sm m obs names srv = Some (None, s) \<longrightarrow>
                  trace_sm s = trace_sm srv @ [LogPanic (err m), LogRecovered (PanicValue ''Server'')]
                                @ (if isShutdown srv then [] else [PoolRelease m])))
       \<and> (errAction m = MessageErrorActionShutdown \<longrightarrow>
            dispatchMessage_sm m obs names srv
              = (case waitDrain obs 0 of
                   None \<Rightarrow> None
                 | Some k \<Rightarrow>
                     (case teardown_sm (err m) names (waited_sm k obs (shutdownBegin (err m) srv)) of
                        (p, s) \<Rightarrow>
                          Some (None, recovered_sm m
                                  (case p of None \<Rightarrow> Returns () | Some x \<Rightarrow> Panics x) s)))
            \<and> isShutdown (shutdownBegin (err m) srv)
            \<and> trace_sm (shutdownBegin (err m) srv)
                = trace_sm srv @ (case err m of None \<Rightarrow> [] | Some x \<Rightarrow> [LogShutdownError x]))"
proof (intro conjI impI)
  assume a: "\<not> messagePoolClosed srv \<and> OnMessageExecBeforeEvent_sm srv m"
  note p = pushMessage_sm_Error[OF assms, of srv]
  show "fst (pushMessage_sm m srv) = None"
    using a by (simp add: p split: prod.splits)
  show "\<exists>d. dispatchers_sm (snd (pushMessage_sm m srv)) serverSystemDispatcher = Some d
                  \<and> (case dispatchers_sm srv serverSystemDispatcher of
                        Some d0 \<Rightarrow> d = d0
                          \<and> heap_sm (snd (pushMessage_sm m srv)) d = put m (heap_sm srv d0)
                      | None \<Rightarrow> queue (heap_sm (snd (pushMessage_sm m srv)) d) = [m])
                  \<and> (\<forall>d'. d' \<noteq> d \<longrightarrow> heap_sm (snd (pushMessage_sm m srv)) d' = heap_sm srv d')"
    using a by (cases "dispatchers_sm srv serverSystemDispatcher")
               (simp_all add: p useDispatcher_def put_def)
next
  assume n: "errAction m = MessageErrorActionNone"
  show d: "dispatchMessage_sm m obs names srv
              = Some (None, recovered_sm m (Panics (PanicValue ''Server'')) (emit_sm (LogPanic (err m)) srv))"
    using assms n by (simp add: dispatchMessage_sm_def execMessage_sm_def logPanic_def)
  show "\<forall>s. dispatchMessage_sm m obs names srv = Some (None, s) \<longrightarrow>
                  trace_sm s = trace_sm srv @ [LogPanic (err m), LogRecovered (PanicValue ''Server'')]
                                @ (if isShutdown srv then [] else [PoolRelease m])"
    by (simp add: d recovered_sm_def provided_sm_def emit_sm_def isError_def Let_def)
next
  assume n: "errAction m = MessageErrorActionShutdown"
  show "dispatchMessage_sm m obs names srv
              = (case waitDrain obs 0 of
                   None \<Rightarrow> None
                 | Some k \<Rightarrow>
                     (case teardown_sm (err m) names (waited_sm k obs (shutdownBegin (err m) srv)) of
                        (p, s) \<Rightarrow>
                          Some (None, recovered_sm m
                                  (case p of None \<Rightarrow> Returns () | Some x \<Rightarrow> Panics x) s)))"
    using assms n
    by (simp add: dispatchMessage_sm_def execMessage_sm_def shutdown_sm_def
          split: option.splits prod.splits)
next
  show "isShutdown (shutdownBegin (err m) srv)" by (rule shutdownBegin_fields)
  show "trace_sm (shutdownBegin (err m) srv)
                = trace_sm srv @ (case err m of None \<Rightarrow> [] | Some x \<Rightarrow> [LogShutdownError x])"
    by (rule shutdownBegin_fields)
qed

text \<open>
  The shutdown called from inside \<open>dispatchMessage\<close> waits for a counter that
  still counts the error message itself (it is counted down in the deferred
  function): as long as every read finds it positive, the call does not return.
\<close>

lemma error_shutdown_never_returns_while_counted:
  assumes "t m = MessageTypeError" "errAction m = MessageErrorActionShutdown"
      and "\<forall>i. 0 < obs i"
  shows "dispatchMessage_sm m obs names srv = None"
proof -
  have "waitDrain obs 0 = None"
  proof (cases "waitDrain obs 0")
    case (Some k)
    from waitDrain_Some[OF Some] assms(3) show ?thesis by (simp add: not_less[symmetric])
  qed simp
  then show ?thesis
    using assms(1,2)
    by (simp add: dispatchMessage_sm_def execMessage_sm_def shutdown_sm_def)
qed

lemma error_example_simps:
  "t E0 = MessageTypeError" "errAction E0 = MessageErrorActionNone" "err E0 = Some ''boom''"
  "t E1 = MessageTypeError" "errAction E1 = MessageErrorActionShutdown" "err E1 = Some ''boom''"
  by (simp_all add: E0_def E1_def castToErrorMessage_def emptyMessage_def)

lemma waitDrain_draining: "waitDrain draining 0 = Some 2"
  by (simp add: waitDrain.simps draining_def numeral_2_eq_2)

theorem error_message_sm_witness:
  "dispatchers_sm (snd (pushMessage_sm E0 started_sm)) ''system'' = Some 0
   \<and> queue (heap_sm (snd (pushMessage_sm E0 started_sm)) 0) = [E0]
   \<and> map_option (trace_sm \<circ> snd) (dispatchMessage_sm E0 draining [] started_sm)
       = Some [LogPanic (Some ''boom''), LogRecovered (PanicValue ''Server''), PoolRelease E0]
   \<and> map_option (trace_sm \<circ> snd) (dispatchMessage_sm E1 draining [] started_sm)
       = Some [LogShutdownError ''boom'', LogWaiting, Sleep second, LogWaiting, Sleep second,
               StopEvent, AntsRelease, LogPanic (Some ''boom''),
               LogRecovered (PanicValue ''Server'')]"
proof -
  note a = error_message_sm[of E0 started_sm draining "[]"]
  note b = error_message_sm[of E1 started_sm draining "[]"]
  have h: "\<not> messagePoolClosed started_sm" "OnMessageExecBeforeEvent_sm started_sm E0"
      "dispatchers_sm started_sm serverSystemDispatcher = None" "trace_sm started_sm = []"
      "\<not> isShutdown started_sm"
    by (simp_all add: started_sm_def admit_def)
  from a h obtain d where d: "dispatchers_sm (snd (pushMessage_sm E0 started_sm)) serverSystemDispatcher = Some d"
      "queue (heap_sm (snd (pushMessage_sm E0 started_sm)) d) = [E0]"
    by (auto simp: error_example_simps)
  have "d = 0"
    using d(1) h
    by (simp add: pushMessage_sm_def selectDispatcher_sm_def error_example_simps Let_def
          useDispatcher_def started_sm_def)
  with d have p1: "dispatchers_sm (snd (pushMessage_sm E0 started_sm)) ''system'' = Some 0"
      "queue (heap_sm (snd (pushMessage_sm E0 started_sm)) 0) = [E0]"
    by (simp_all add: serverSystemDispatcher_def)
  have p2: "map_option (trace_sm \<circ> snd) (dispatchMessage_sm E0 draining [] started_sm)
       = Some [LogPanic (Some ''boom''), LogRecovered (PanicValue ''Server''), PoolRelease E0]"
    using a h by (simp add: error_example_simps)
  have p3: "map_option (trace_sm \<circ> snd) (dispatchMessage_sm E1 draining [] started_sm)
       = Some [LogShutdownError ''boom'', LogWaiting, Sleep second, LogWaiting, Sleep second,
               StopEvent, AntsRelease, LogPanic (Some ''boom''),
               LogRecovered (PanicValue ''Server'')]"
    using b
    by (simp add: error_example_simps waitDrain_draining teardown_sm_def waited_sm_def
          shutdownBegin_def provided_sm_def shutdownDeferred_sm_def emit_sm_def recovered_sm_def
          isError_def Let_def started_sm_def numeral_2_eq_2)
  from p1 p2 p3 show ?thesis by simp
qed

section \<open>The gateway frame: round trip\<close>


























lemma stops_simps [simp]: "stops (0x2C # r)" "stops [0x7D]"
  by (simp_all add: stops_def isDigit_def)









end
